theory Spec2Isabelle
  imports Main "HOL-Library.Word"
begin

unbundle bit_operations_syntax

section \<open>Errors\<close>

text \<open>
  The error codes of the protocol package that \<^verbatim>\<open>auth_impl.go\<close> uses, and the error values
  that flow through it. Go's \<^verbatim>\<open>(value, error)\<close> results are sums: \<open>Inl\<close> is the error.
  Tags, function names and log output attached to an error carry no decision and are left out.
  A run-time panic is the distinguished value \<open>Panic\<close>.
\<close>

datatype Err =
    Err_UNKNOWN
  | Err_INTERNAL
  | Err_RESOURCE_EXHAUSTED
  | Err_PERMISSION_DENIED
  | Err_DOWNSTREAM_NETWORK_ERROR
  | Err_CANNOT_CHECK_ENTITLEMENTS

datatype error =
    NotFound
  | External string
  | RiverError Err string
  | Wrapped "Err option" error
  | Joined error error
  | Panic string

text \<open>
  Modelled from the spec: \<^verbatim>\<open>base.AsRiverError\<close> belongs to another package of the repository. The
  spec (sections 4.7, 4.8 and 7) has it return the underlying error wrapped under the given
  code (\<^verbatim>\<open>CANNOT_CHECK_ENTITLEMENTS\<close> with the concatenated probe errors,
  \<^verbatim>\<open>DOWNSTREAM_NETWORK_ERROR\<close> for an RPC failure); without a code the error is wrapped
  and keeps its own classification.
\<close>

definition AsRiverError :: "error \<Rightarrow> Err option \<Rightarrow> error" where
  "AsRiverError err defaultCode = Wrapped defaultCode err"

fun errorCode :: "error \<Rightarrow> Err option" where
  "errorCode (RiverError code msg) = Some code"
| "errorCode (Wrapped (Some code) err) = Some code"
| "errorCode (Wrapped None err) = errorCode err"
| "errorCode err = None"

text \<open>\<^verbatim>\<open>errors.Is(err, ethereum.NotFound)\<close>: the error is, or wraps, the not-found value.\<close>

fun errors_Is_NotFound :: "error \<Rightarrow> bool" where
  "errors_Is_NotFound NotFound = True"
| "errors_Is_NotFound (Wrapped code err) = errors_Is_NotFound err"
| "errors_Is_NotFound (Joined a b) = (errors_Is_NotFound a \<or> errors_Is_NotFound b)"
| "errors_Is_NotFound err = False"

section \<open>Library functions: hexadecimal strings and addresses\<close>

text \<open>
  \<^verbatim>\<open>common.Address\<close> is a 20-byte array and \<^verbatim>\<open>common.Hash\<close> a 32-byte array; both are
  byte lists here, of that length wherever the library builds them. The functions of this
  section are those of Go's \<^verbatim>\<open>encoding/hex\<close> and \<^verbatim>\<open>strings\<close> and of go-ethereum's
  \<^verbatim>\<open>common\<close> package that the authorization code calls. The Keccak-256 hash that
  \<^verbatim>\<open>Address.Hex\<close> uses for its mixed-case checksum is a parameter.
\<close>

type_synonym byte = "8 word"
type_synonym address = "byte list"
type_synonym hash = "byte list"

definition AddressLength :: nat where
  "AddressLength = 20"

definition HashLength :: nat where
  "HashLength = 32"

definition hextable :: string where
  "hextable = ''0123456789abcdef''"

text \<open>The decoding table of \<^verbatim>\<open>encoding/hex\<close>: \<open>0xff\<close> marks a byte that is no digit.\<close>

definition reverseHexTable :: "char \<Rightarrow> byte" where
  "reverseHexTable c =
     (let n = (of_char c :: nat) in
      if 48 \<le> n \<and> n \<le> 57 then of_nat (n - 48)
      else if 97 \<le> n \<and> n \<le> 102 then of_nat (n - 97 + 10)
      else if 65 \<le> n \<and> n \<le> 70 then of_nat (n - 65 + 10)
      else 0xff)"

fun Encode :: "byte list \<Rightarrow> string" where
  "Encode [] = []"
| "Encode (v # src) =
     hextable ! unat (drop_bit 4 v) # hextable ! unat (v AND 0x0f) # Encode src"

text \<open>
  \<^verbatim>\<open>hex.DecodeString\<close>: the bytes decoded before the first invalid digit, with the error.
\<close>

fun Decode :: "string \<Rightarrow> byte list \<times> error option" where
  "Decode (p # q # src) =
     (let a = reverseHexTable p; b = reverseHexTable q in
      if a > 0x0f then ([], Some (External ''encoding/hex: invalid byte''))
      else if b > 0x0f then ([], Some (External ''encoding/hex: invalid byte''))
      else (case Decode src of (dst, err) \<Rightarrow> ((push_bit 4 a OR b) # dst, err)))"
| "Decode [p] =
     (if reverseHexTable p > 0x0f then ([], Some (External ''encoding/hex: invalid byte''))
      else ([], Some (External ''encoding/hex: odd length hex string'')))"
| "Decode [] = ([], None)"

definition has0xPrefix :: "string \<Rightarrow> bool" where
  "has0xPrefix str =
     (length str \<ge> 2 \<and> str ! 0 = CHR ''0'' \<and> (str ! 1 = CHR ''x'' \<or> str ! 1 = CHR ''X''))"

text \<open>\<^verbatim>\<open>common.Hex2Bytes\<close> drops the decoding error.\<close>

definition Hex2Bytes :: "string \<Rightarrow> byte list" where
  "Hex2Bytes str = fst (Decode str)"

definition FromHex :: "string \<Rightarrow> byte list" where
  "FromHex s =
     (let s = (if has0xPrefix s then drop 2 s else s);
          s = (if length s mod 2 = 1 then CHR ''0'' # s else s)
      in Hex2Bytes s)"

text \<open>\<^verbatim>\<open>SetBytes\<close>: a longer input is cropped from the left, a shorter one is left-padded.\<close>

definition BytesToAddress :: "byte list \<Rightarrow> address" where
  "BytesToAddress b =
     (let b = (if length b > AddressLength then drop (length b - AddressLength) b else b)
      in replicate (AddressLength - length b) 0 @ b)"

definition BytesToHash :: "byte list \<Rightarrow> hash" where
  "BytesToHash b =
     (let b = (if length b > HashLength then drop (length b - HashLength) b else b)
      in replicate (HashLength - length b) 0 @ b)"

definition HexToAddress :: "string \<Rightarrow> address" where
  "HexToAddress s = BytesToAddress (FromHex s)"

definition hex :: "address \<Rightarrow> string" where
  "hex a = ''0x'' @ Encode a"

text \<open>
  The loop of \<^verbatim>\<open>checksumHex\<close> from index \<open>i\<close> on: a letter whose hash nibble exceeds 7 is
  put in upper case.
\<close>

fun checksumLoop :: "byte list \<Rightarrow> nat \<Rightarrow> string \<Rightarrow> string" where
  "checksumLoop hash i [] = []"
| "checksumLoop hash i (c # buf) =
     (let hashByte = hash ! ((i - 2) div 2);
          hashByte = (if i mod 2 = 0 then drop_bit 4 hashByte else hashByte AND 0x0f)
      in (if (of_char c :: nat) > of_char CHR ''9'' \<and> hashByte > 7
          then char_of ((of_char c :: nat) - 32) else c)
         # checksumLoop hash (i + 1) buf)"

definition checksumHex :: "(string \<Rightarrow> byte list) \<Rightarrow> address \<Rightarrow> string" where
  "checksumHex keccak256 a =
     (let buf = hex a; hash = keccak256 (drop 2 buf)
      in take 2 buf @ checksumLoop hash 2 (drop 2 buf))"

definition Hex :: "(string \<Rightarrow> byte list) \<Rightarrow> address \<Rightarrow> string" where
  "Hex keccak256 a = checksumHex keccak256 a"

text \<open>\<^verbatim>\<open>strings.Split\<close> for a one-byte separator, as at its only call site.\<close>

fun Split :: "string \<Rightarrow> char \<Rightarrow> string list" where
  "Split [] sep = [[]]"
| "Split (c # s) sep =
     (if c = sep then [] # Split s sep
      else (case Split s sep of [] \<Rightarrow> [[c]] | x # xs \<Rightarrow> (c # x) # xs))"

text \<open>\<^verbatim>\<open>big.Int.Uint64\<close>: the low 64 bits of the absolute value.\<close>

definition Uint64 :: "int \<Rightarrow> 64 word" where
  "Uint64 x = word_of_int \<bar>x\<bar>"

section \<open>Data model\<close>

text \<open>
  Modelled from the spec: \<^verbatim>\<open>shared.StreamId\<close>, \<^verbatim>\<open>Permission\<close>,
  \<^verbatim>\<open>EntitlementResultReason\<close>, \<^verbatim>\<open>MembershipStatus\<close> and \<^verbatim>\<open>types.Entitlement\<close> are
  declared in other packages of the repository. The spec (sections 3 and 6) makes a stream id an opaque
  32-byte identifier, a permission an enumeration of which only \<open>Read\<close> matters here, lists the
  reason codes, gives a membership status the fields read below, and makes an entitlement
  record a tagged value with the variants rule V1, rule V2 and user list; any other tag is an
  unknown variant. Rule data is opaque to this code.
\<close>

type_synonym StreamId = "byte list"

datatype Permission =
    PermissionUndefined
  | PermissionRead
  | PermissionWrite
  | PermissionOther nat

datatype EntitlementResultReason =
    EntitlementResultReason_NONE
  | EntitlementResultReason_SPACE_DISABLED
  | EntitlementResultReason_CHANNEL_DISABLED
  | EntitlementResultReason_SPACE_ENTITLEMENTS
  | EntitlementResultReason_CHANNEL_ENTITLEMENTS
  | EntitlementResultReason_MEMBERSHIP
  | EntitlementResultReason_MEMBERSHIP_EXPIRED
  | EntitlementResultReason_WALLET_NOT_LINKED

record MembershipStatus =
  IsMember :: bool
  IsExpired :: bool
  ExpiryTime :: nat

datatype RuleDataV1 = RuleDataV1 nat

datatype RuleDataV2 = RuleDataV2 nat

datatype ModuleType =
    ModuleTypeRuleEntitlement
  | ModuleTypeRuleEntitlementV2
  | ModuleTypeUserEntitlement
  | ModuleTypeUnknown string

record Entitlement =
  EntitlementType :: ModuleType
  RuleEntitlement :: RuleDataV1
  RuleEntitlementV2 :: RuleDataV2
  UserEntitlement :: "address list"

datatype chainAuthKind =
    chainAuthKindSpace
  | chainAuthKindChannel
  | chainAuthKindSpaceEnabled
  | chainAuthKindChannelEnabled
  | chainAuthKindIsSpaceMember
  | chainAuthKindIsWalletLinked

record ChainAuthArgs =
  kind :: chainAuthKind
  spaceId :: StreamId
  channelId :: StreamId
  principal :: address
  permission :: Permission
  linkedWallets :: string
  walletAddress :: address

record isEntitledResult =
  isAllowed :: bool
  reason :: EntitlementResultReason

text \<open>The zero values that Go gives to the fields a struct literal leaves out.\<close>

definition zeroAddress :: address where
  "zeroAddress = replicate AddressLength 0"

definition zeroStreamId :: StreamId where
  "zeroStreamId = replicate 32 0"

definition zeroChainAuthArgs :: ChainAuthArgs where
  "zeroChainAuthArgs =
     \<lparr>kind = chainAuthKindSpace, spaceId = zeroStreamId, channelId = zeroStreamId,
      principal = zeroAddress, permission = PermissionUndefined, linkedWallets = [],
      walletAddress = zeroAddress\<rparr>"

definition everyone :: address where
  "everyone = HexToAddress ''0x1''"

definition newArgsForEnabledSpace :: "StreamId \<Rightarrow> ChainAuthArgs" where
  "newArgsForEnabledSpace sid =
     zeroChainAuthArgs\<lparr>kind := chainAuthKindSpaceEnabled, spaceId := sid\<rparr>"

definition newArgsForEnabledChannel :: "StreamId \<Rightarrow> StreamId \<Rightarrow> ChainAuthArgs" where
  "newArgsForEnabledChannel sid cid =
     zeroChainAuthArgs\<lparr>kind := chainAuthKindChannelEnabled, spaceId := sid, channelId := cid\<rparr>"

definition newArgsForLinkedWallets :: "address \<Rightarrow> ChainAuthArgs" where
  "newArgsForLinkedWallets p = zeroChainAuthArgs\<lparr>principal := p\<rparr>"

definition DEFAULT_REQUEST_TIMEOUT_MS :: int where
  "DEFAULT_REQUEST_TIMEOUT_MS = 10000"

definition DEFAULT_MAX_WALLETS :: int where
  "DEFAULT_MAX_WALLETS = 10"

subsection \<open>Serialized wallet lists\<close>

text \<open>
  The loop of \<^verbatim>\<open>withLinkedWallets\<close> from index \<open>i\<close> on, appending to the string builder.
\<close>

fun writeWallets :: "(string \<Rightarrow> byte list) \<Rightarrow> nat \<Rightarrow> address list \<Rightarrow> string \<Rightarrow> string" where
  "writeWallets keccak256 i [] builder = builder"
| "writeWallets keccak256 i (addr # rest) builder =
     writeWallets keccak256 (i + 1) rest
       ((if i > 0 then builder @ '','' else builder) @ Hex keccak256 addr)"

definition withLinkedWallets ::
  "(string \<Rightarrow> byte list) \<Rightarrow> ChainAuthArgs \<Rightarrow> address list \<Rightarrow> ChainAuthArgs" where
  "withLinkedWallets keccak256 args ws = args\<lparr>linkedWallets := writeWallets keccak256 0 ws []\<rparr>"

definition deserializeWallets :: "string \<Rightarrow> address list" where
  "deserializeWallets serialized = map HexToAddress (Split serialized CHR '','')"

subsection \<open>Cache values\<close>

text \<open>
  Modelled from the spec: the cache (\<^verbatim>\<open>entitlementCache\<close>, its \<^verbatim>\<open>executeUsingCache\<close> and
  \<^verbatim>\<open>bust\<close>) and the value types \<^verbatim>\<open>boolCacheResult\<close>, \<^verbatim>\<open>linkedWalletCacheValue\<close>,
  \<^verbatim>\<open>membershipStatusCacheResult\<close> and \<^verbatim>\<open>timestampedCacheValue\<close> are declared in another
  file of the package. By section 4.1 of the spec a cache maps a key to a value with its insertion
  time and a positive flag; a lookup serves an entry whose age is below the time-to-live of
  its bucket and otherwise computes, storing the result under the positive bucket when the
  result reports \<^verbatim>\<open>IsAllowed\<close> and under the negative one when not; an error of the
  computation is returned and not stored; \<^verbatim>\<open>bust\<close> removes the entry. Single-flight
  concerns concurrent callers and has no counterpart in a sequential model.
\<close>

datatype CacheResult =
    boolCacheResult bool EntitlementResultReason
  | entitlementCacheResult bool "Entitlement list" address
  | linkedWalletCacheValue "address list"
  | membershipStatusCacheResult "MembershipStatus option"

record CachedValue =
  result :: CacheResult
  insertedAt :: nat
  positive :: bool

record entitlementCache =
  positiveCacheTTL :: nat
  negativeCacheTTL :: nat
  entries :: "ChainAuthArgs \<Rightarrow> CachedValue option"

section \<open>Collaborators\<close>

text \<open>
  The contracts, the rule evaluator and the chain clients belong to other packages; each
  method is a function that returns its result or an error. A context that is cancelled or
  times out shows as the error the method returns.
\<close>

record SpaceContract =
  IsSpaceDisabled :: "StreamId \<Rightarrow> error + bool"
  IsChannelDisabled :: "StreamId \<Rightarrow> StreamId \<Rightarrow> error + bool"
  GetSpaceEntitlementsForPermission ::
    "StreamId \<Rightarrow> Permission \<Rightarrow> error + (Entitlement list \<times> address)"
  GetChannelEntitlementsForPermission ::
    "StreamId \<Rightarrow> StreamId \<Rightarrow> Permission \<Rightarrow> error + (Entitlement list \<times> address)"
  IsBanned :: "StreamId \<Rightarrow> address list \<Rightarrow> error + bool"
  GetMembershipStatus :: "StreamId \<Rightarrow> address \<Rightarrow> error + MembershipStatus"

text \<open>
  go-ethereum's log, receipt and transaction, with the fields the verifier reads. \<open>To\<close> of a
  transaction is a pointer, nil for a contract creation.
\<close>

record Log =
  Address :: address
  Topics :: "hash list"
  Data :: "byte list"

record Receipt =
  BlockNumber :: int
  Logs :: "Log list"

record Transaction =
  To :: "address option"
  Payload :: "byte list"

record ChainClient =
  TransactionReceipt :: "hash \<Rightarrow> error + Receipt"
  TransactionByHash :: "hash \<Rightarrow> error + (Transaction \<times> bool)"

record Evaluator =
  GetClient :: "64 word \<Rightarrow> error + ChainClient"
  EvaluateRuleData :: "address list \<Rightarrow> RuleDataV2 \<Rightarrow> error + bool"
  GetLinkedWallets :: "address \<Rightarrow> error + address list"

text \<open>The client of the node's own chain: \<^verbatim>\<open>ca.blockchain.Client.BlockNumber\<close>.\<close>

record Blockchain =
  BlockNumber :: "error + 64 word"

text \<open>The receipt a user uploads (a protocol message; its byte fields have any length).\<close>

record BlockchainTransactionReceipt_Log =
  Address :: "byte list"
  Topics :: "byte list list"
  Data :: "byte list"

record BlockchainTransactionReceipt =
  ChainId :: "64 word"
  TransactionHash :: "byte list"
  BlockNumber :: "64 word"
  To :: "byte list"
  From :: "byte list"
  Logs :: "BlockchainTransactionReceipt_Log list"

datatype WalletLink = WalletLink

datatype counter =
    isEntitledToChannelCacheHit
  | isEntitledToChannelCacheMiss
  | isEntitledToSpaceCacheHit
  | isEntitledToSpaceCacheMiss
  | isSpaceEnabledCacheHit
  | isSpaceEnabledCacheMiss
  | isChannelEnabledCacheHit
  | isChannelEnabledCacheMiss
  | entitlementCacheHit
  | entitlementCacheMiss
  | linkedWalletCacheHit
  | linkedWalletCacheMiss
  | linkedWalletCacheBust
  | membershipCacheHit
  | membershipCacheMiss

text \<open>
  The \<^verbatim>\<open>chainAuth\<close> struct: configuration, collaborators, the four caches and the metric
  counters (one field per counter in the source, a function of the counter's name here).
\<close>

record chainAuth =
  blockchain :: Blockchain
  evaluator :: Evaluator
  spaceContract :: SpaceContract
  walletLinkContract :: "WalletLink option"
  linkedWalletsLimit :: int
  contractCallsTimeoutMs :: int
  entitlementCache :: entitlementCache
  membershipCache :: entitlementCache
  entitlementManagerCache :: entitlementCache
  linkedWalletCache :: entitlementCache
  counters :: "counter \<Rightarrow> nat"

text \<open>
  What a call depends on besides the \<^verbatim>\<open>chainAuth\<close> value: the clock, the Keccak-256 hash of
  the address checksum, the package-level rule conversion, the recovery of a transaction's
  sender, the order in which the membership probes complete, and the \<^verbatim>\<open>IsAllowed\<close> and
  \<^verbatim>\<open>Reason\<close> methods of the two cache value types whose methods are in another file of
  the package.
\<close>

record runtime =
  now :: nat
  keccak256 :: "string \<Rightarrow> byte list"
  ConvertV1RuleDataToV2 :: "RuleDataV1 \<Rightarrow> error + RuleDataV2"
  Sender :: "Transaction \<Rightarrow> error + address"
  completionOrder :: "address list \<Rightarrow> address list"
  valueIsAllowed :: "CacheResult \<Rightarrow> bool"
  valueReason :: "CacheResult \<Rightarrow> EntitlementResultReason"

section \<open>The cache\<close>

text \<open>
  Modelled from the spec: \<^verbatim>\<open>IsAllowed\<close> and \<^verbatim>\<open>Reason\<close> of a cache value. A boolean result
  reports its two fields; an entitlement-manager result reports its flag and no reason, as
  in the source; the other two value types are left to the parameters \<open>valueIsAllowed\<close> and
  \<open>valueReason\<close>.
\<close>

fun IsAllowed :: "runtime \<Rightarrow> CacheResult \<Rightarrow> bool" where
  "IsAllowed rt (boolCacheResult allowed why) = allowed"
| "IsAllowed rt (entitlementCacheResult allowed entitlementData ownr) = allowed"
| "IsAllowed rt v = valueIsAllowed rt v"

fun Reason :: "runtime \<Rightarrow> CacheResult \<Rightarrow> EntitlementResultReason" where
  "Reason rt (boolCacheResult allowed why) = why"
| "Reason rt (entitlementCacheResult allowed entitlementData ownr) = EntitlementResultReason_NONE"
| "Reason rt v = valueReason rt v"

text \<open>The four cache fields of \<^verbatim>\<open>chainAuth\<close>, as the receiver of a cache method.\<close>

datatype cacheField =
    The_entitlementCache
  | The_membershipCache
  | The_entitlementManagerCache
  | The_linkedWalletCache

fun getCache :: "cacheField \<Rightarrow> chainAuth \<Rightarrow> entitlementCache" where
  "getCache The_entitlementCache ca = entitlementCache ca"
| "getCache The_membershipCache ca = membershipCache ca"
| "getCache The_entitlementManagerCache ca = entitlementManagerCache ca"
| "getCache The_linkedWalletCache ca = linkedWalletCache ca"

fun putCache :: "cacheField \<Rightarrow> entitlementCache \<Rightarrow> chainAuth \<Rightarrow> chainAuth" where
  "putCache The_entitlementCache c ca = ca\<lparr>entitlementCache := c\<rparr>"
| "putCache The_membershipCache c ca = ca\<lparr>membershipCache := c\<rparr>"
| "putCache The_entitlementManagerCache c ca = ca\<lparr>entitlementManagerCache := c\<rparr>"
| "putCache The_linkedWalletCache c ca = ca\<lparr>linkedWalletCache := c\<rparr>"

text \<open>Modelled from the spec: an entry is served while its age is below its bucket's TTL.\<close>

definition lookupFresh :: "nat \<Rightarrow> entitlementCache \<Rightarrow> ChainAuthArgs \<Rightarrow> CacheResult option" where
  "lookupFresh t c key =
     (case entries c key of
        None \<Rightarrow> None
      | Some v \<Rightarrow>
          if t - insertedAt v < (if positive v then positiveCacheTTL c else negativeCacheTTL c)
          then Some (result v) else None)"

text \<open>
  Modelled from the spec: a stored value carries its insertion time and whether it belongs
  to the positive bucket.
\<close>

definition storeValue ::
  "nat \<Rightarrow> ChainAuthArgs \<Rightarrow> CacheResult \<Rightarrow> bool \<Rightarrow> entitlementCache \<Rightarrow> entitlementCache" where
  "storeValue t key v pos c =
     c\<lparr>entries := (entries c)(key \<mapsto> \<lparr>result = v, insertedAt = t, positive = pos\<rparr>)\<rparr>"

text \<open>
  Modelled from the spec: \<^verbatim>\<open>executeUsingCache\<close> returns the value and whether it was a
  cache hit; on a miss it runs the computation on the key.
\<close>

definition executeUsingCache ::
  "runtime \<Rightarrow> cacheField \<Rightarrow> ChainAuthArgs \<Rightarrow>
   (ChainAuthArgs \<Rightarrow> chainAuth \<Rightarrow> (error + CacheResult) \<times> chainAuth) \<Rightarrow>
   chainAuth \<Rightarrow> (error + CacheResult \<times> bool) \<times> chainAuth" where
  "executeUsingCache rt field key onMiss ca =
     (case lookupFresh (now rt) (getCache field ca) key of
        Some v \<Rightarrow> (Inr (v, True), ca)
      | None \<Rightarrow>
          (case onMiss key ca of
             (Inl err, ca1) \<Rightarrow> (Inl err, ca1)
           | (Inr v, ca1) \<Rightarrow>
               (Inr (v, False),
                putCache field
                  (storeValue (now rt) key v (IsAllowed rt v) (getCache field ca1)) ca1)))"

text \<open>Modelled from the spec: \<^verbatim>\<open>bust\<close> removes the entry at once.\<close>

definition bust :: "cacheField \<Rightarrow> ChainAuthArgs \<Rightarrow> chainAuth \<Rightarrow> chainAuth" where
  "bust field key ca =
     putCache field ((getCache field ca)\<lparr>entries := (entries (getCache field ca))(key := None)\<rparr>) ca"

definition Inc :: "counter \<Rightarrow> chainAuth \<Rightarrow> chainAuth" where
  "Inc c ca = ca\<lparr>counters := (counters ca)(c := counters ca c + 1)\<rparr>"

section \<open>Construction\<close>

text \<open>
  \<^verbatim>\<open>NewChainAuth\<close>: the outcomes of the six constructors it calls are arguments; the counters
  start at zero.
\<close>

definition NewChainAuth ::
  "Blockchain \<Rightarrow> Evaluator \<Rightarrow> error + SpaceContract \<Rightarrow> error + WalletLink option \<Rightarrow>
   error + entitlementCache \<Rightarrow> error + entitlementCache \<Rightarrow> error + entitlementCache \<Rightarrow>
   error + entitlementCache \<Rightarrow> int \<Rightarrow> int \<Rightarrow> error + chainAuth" where
  "NewChainAuth bc ev newSpaceContract newWalletLink newEntitlementCache newMembershipCache
     newEntitlementManagerCache newLinkedWalletCache limit timeoutMs =
     (case newSpaceContract of Inl err \<Rightarrow> Inl err | Inr sc \<Rightarrow>
      case newWalletLink of Inl err \<Rightarrow> Inl err | Inr wl \<Rightarrow>
      case newEntitlementCache of Inl err \<Rightarrow> Inl err | Inr ec \<Rightarrow>
      case newMembershipCache of Inl err \<Rightarrow> Inl err | Inr mc \<Rightarrow>
      case newEntitlementManagerCache of Inl err \<Rightarrow> Inl err | Inr emc \<Rightarrow>
      case newLinkedWalletCache of Inl err \<Rightarrow> Inl err | Inr lwc \<Rightarrow>
        Inr \<lparr>blockchain = bc, evaluator = ev, spaceContract = sc, walletLinkContract = wl,
             linkedWalletsLimit = (if limit \<le> 0 then DEFAULT_MAX_WALLETS else limit),
             contractCallsTimeoutMs =
               (if timeoutMs \<le> 0 then DEFAULT_REQUEST_TIMEOUT_MS else timeoutMs),
             entitlementCache = ec, membershipCache = mc, entitlementManagerCache = emc,
             linkedWalletCache = lwc, counters = (\<lambda>c. 0)\<rparr>)"

section \<open>Receipt verification\<close>

text \<open>
  The loop over the topics of one log, and the loop over the logs, after the counts were
  found equal; \<open>i\<close> and \<open>j\<close> are the loop indices. An index beyond the uploaded list cannot
  occur then; Go would panic there.
\<close>

fun compareTopics :: "nat \<Rightarrow> hash list \<Rightarrow> byte list list \<Rightarrow> error option" where
  "compareTopics j [] uploaded = None"
| "compareTopics j (topic # topics) [] = Some (Panic ''index out of range'')"
| "compareTopics j (topic # topics) (u # uploaded) =
     (if topic \<noteq> u then Some (RiverError Err_PERMISSION_DENIED ''Log topic mismatch'')
      else compareTopics (j + 1) topics uploaded)"

fun compareLogs ::
  "nat \<Rightarrow> Log list \<Rightarrow> BlockchainTransactionReceipt_Log list \<Rightarrow> error option" where
  "compareLogs i [] uploaded = None"
| "compareLogs i (chainLog # logs) [] = Some (Panic ''index out of range'')"
| "compareLogs i (chainLog # logs) (uploadedLog # uploaded) =
     (if Log.Address chainLog \<noteq> BlockchainTransactionReceipt_Log.Address uploadedLog
      then Some (RiverError Err_PERMISSION_DENIED ''Log address mismatch:'')
      else if length (Log.Topics chainLog)
              \<noteq> length (BlockchainTransactionReceipt_Log.Topics uploadedLog)
      then Some (RiverError Err_PERMISSION_DENIED ''Log topics count mismatch'')
      else (case compareTopics 0 (Log.Topics chainLog)
                   (BlockchainTransactionReceipt_Log.Topics uploadedLog) of
              Some err \<Rightarrow> Some err
            | None \<Rightarrow>
                if Log.Data chainLog \<noteq> BlockchainTransactionReceipt_Log.Data uploadedLog
                then Some (RiverError Err_PERMISSION_DENIED ''Log data mismatch'')
                else compareLogs (i + 1) logs uploaded))"

definition VerifyReceipt ::
  "runtime \<Rightarrow> chainAuth \<Rightarrow> BlockchainTransactionReceipt \<Rightarrow> error + bool" where
  "VerifyReceipt rt ca userReceipt =
     (case GetClient (evaluator ca) (ChainId userReceipt) of
        Inl err \<Rightarrow> Inl err
      | Inr client \<Rightarrow>
     let txHash = BytesToHash (TransactionHash userReceipt) in
     case TransactionReceipt client txHash of
        Inl err \<Rightarrow>
          if errors_Is_NotFound err
          then Inl (RiverError Err_PERMISSION_DENIED ''Transaction receipt not found'')
          else Inl (AsRiverError err (Some Err_DOWNSTREAM_NETWORK_ERROR))
      | Inr chainReceipt \<Rightarrow>
     if Uint64 (Receipt.BlockNumber chainReceipt)
        \<noteq> BlockchainTransactionReceipt.BlockNumber userReceipt
     then Inl (RiverError Err_PERMISSION_DENIED ''Block number mismatch'')
     else if length (Receipt.Logs chainReceipt)
             \<noteq> length (BlockchainTransactionReceipt.Logs userReceipt)
     then Inl (RiverError Err_PERMISSION_DENIED ''Log count mismatch: chain:'')
     else
     case compareLogs 0 (Receipt.Logs chainReceipt)
            (BlockchainTransactionReceipt.Logs userReceipt) of
        Some err \<Rightarrow> Inl err
      | None \<Rightarrow>
     case TransactionByHash client txHash of
        Inl err \<Rightarrow> Inl err
      | Inr (tx, isPending) \<Rightarrow>
     if isPending then Inl (RiverError Err_PERMISSION_DENIED ''Transaction is pending'')
     else
     case Transaction.To tx of
        None \<Rightarrow> Inl (Panic ''invalid memory address or nil pointer dereference'')
      | Some txTo \<Rightarrow>
     if txTo \<noteq> BlockchainTransactionReceipt.To userReceipt
     then Inl (RiverError Err_PERMISSION_DENIED ''To address mismatch'')
     else
     case Sender rt tx of
        Inl err \<Rightarrow> Inl err
      | Inr sender \<Rightarrow>
     if sender \<noteq> From userReceipt
     then Inl (RiverError Err_PERMISSION_DENIED ''From address mismatch'')
     else
     case Blockchain.BlockNumber (blockchain ca) of
        Inl err \<Rightarrow>
          Inl (RiverError Err_PERMISSION_DENIED ''Failed to get latest block number: %v'')
      | Inr latestBlockNumber \<Rightarrow>
     let confirmations = latestBlockNumber - Uint64 (Receipt.BlockNumber chainReceipt) in
     if confirmations < 1
     then Inl (RiverError Err_PERMISSION_DENIED ''Transaction has 0 confirmations.'')
     else Inr True)"

section \<open>Entitlement evaluation\<close>

text \<open>
  The loop \<^verbatim>\<open>for _, wallet := range wallets { if wallet == x { return ... } }\<close>, which the
  source runs against a user of a user list, against the owner, and against the wallet of an
  \<^verbatim>\<open>IsWalletLinked\<close> request: whether it reaches its \<^verbatim>\<open>return\<close>.
\<close>

fun anyWalletEquals :: "address list \<Rightarrow> address \<Rightarrow> bool" where
  "anyWalletEquals [] x = False"
| "anyWalletEquals (wallet # wallets) x =
     (if wallet = x then True else anyWalletEquals wallets x)"

text \<open>The loop over the users of a user entitlement: whether it returns true.\<close>

fun userEntitlementLoop :: "address list \<Rightarrow> address list \<Rightarrow> bool" where
  "userEntitlementLoop [] wallets = False"
| "userEntitlementLoop (user # users) wallets =
     (if user = everyone then True
      else if anyWalletEquals wallets user then True
      else userEntitlementLoop users wallets)"

fun entitlementLoop ::
  "runtime \<Rightarrow> chainAuth \<Rightarrow> address list \<Rightarrow> Entitlement list \<Rightarrow> error + bool" where
  "entitlementLoop rt ca wallets [] = Inr False"
| "entitlementLoop rt ca wallets (ent # ents) =
     (if EntitlementType ent = ModuleTypeRuleEntitlement then
        (case ConvertV1RuleDataToV2 rt (RuleEntitlement ent) of
           Inl err \<Rightarrow> Inl err
         | Inr reV2 \<Rightarrow>
             (case EvaluateRuleData (evaluator ca) wallets reV2 of
                Inl err \<Rightarrow> Inl err
              | Inr res \<Rightarrow> if res then Inr True else entitlementLoop rt ca wallets ents))
      else if EntitlementType ent = ModuleTypeRuleEntitlementV2 then
        (case EvaluateRuleData (evaluator ca) wallets (RuleEntitlementV2 ent) of
           Inl err \<Rightarrow> Inl err
         | Inr res \<Rightarrow> if res then Inr True else entitlementLoop rt ca wallets ents)
      else if EntitlementType ent = ModuleTypeUserEntitlement then
        (if userEntitlementLoop (UserEntitlement ent) wallets then Inr True
         else entitlementLoop rt ca wallets ents)
      else entitlementLoop rt ca wallets ents)"

definition evaluateEntitlementData ::
  "runtime \<Rightarrow> chainAuth \<Rightarrow> Entitlement list \<Rightarrow> ChainAuthArgs \<Rightarrow> error + bool" where
  "evaluateEntitlementData rt ca entitlements args =
     entitlementLoop rt ca (deserializeWallets (linkedWallets args)) entitlements"

definition evaluateWithEntitlements ::
  "runtime \<Rightarrow> chainAuth \<Rightarrow> ChainAuthArgs \<Rightarrow> address \<Rightarrow> Entitlement list \<Rightarrow> error + bool" where
  "evaluateWithEntitlements rt ca args ownr entitlements =
     (let wallets = deserializeWallets (linkedWallets args) in
      if anyWalletEquals wallets ownr then Inr True
      else
        (case IsBanned (spaceContract ca) (spaceId args) wallets of
           Inl err \<Rightarrow> Inl (AsRiverError err None)
         | Inr banned \<Rightarrow>
             if banned then Inr False
             else
               (case evaluateEntitlementData rt ca entitlements args of
                  Inl err \<Rightarrow> Inl (AsRiverError err None)
                | Inr allowed \<Rightarrow> Inr allowed)))"

section \<open>The decision pipeline\<close>

text \<open>
  Every function that touches a cache or a counter takes the \<^verbatim>\<open>chainAuth\<close> value last and
  returns it updated. A function passed to \<open>executeUsingCache\<close> takes the key first.
\<close>

definition isSpaceEnabledUncached ::
  "ChainAuthArgs \<Rightarrow> chainAuth \<Rightarrow> (error + CacheResult) \<times> chainAuth" where
  "isSpaceEnabledUncached args ca =
     (case IsSpaceDisabled (spaceContract ca) (spaceId args) of
        Inl err \<Rightarrow> (Inl err, ca)
      | Inr isDisabled \<Rightarrow>
          (Inr (boolCacheResult (\<not> isDisabled) EntitlementResultReason_SPACE_DISABLED), ca))"

definition checkSpaceEnabled ::
  "runtime \<Rightarrow> StreamId \<Rightarrow> chainAuth \<Rightarrow> (error + bool \<times> EntitlementResultReason) \<times> chainAuth" where
  "checkSpaceEnabled rt sid ca =
     (case executeUsingCache rt The_entitlementCache (newArgsForEnabledSpace sid)
             isSpaceEnabledUncached ca of
        (Inl err, ca1) \<Rightarrow> (Inl err, ca1)
      | (Inr (isEnabled, cacheHit), ca1) \<Rightarrow>
          (Inr (IsAllowed rt isEnabled, Reason rt isEnabled),
           Inc (if cacheHit then isSpaceEnabledCacheHit else isSpaceEnabledCacheMiss) ca1))"

definition isChannelEnabledUncached ::
  "ChainAuthArgs \<Rightarrow> chainAuth \<Rightarrow> (error + CacheResult) \<times> chainAuth" where
  "isChannelEnabledUncached args ca =
     (case IsChannelDisabled (spaceContract ca) (spaceId args) (channelId args) of
        Inl err \<Rightarrow> (Inl err, ca)
      | Inr isDisabled \<Rightarrow>
          (Inr (boolCacheResult (\<not> isDisabled) EntitlementResultReason_CHANNEL_DISABLED), ca))"

definition checkChannelEnabled ::
  "runtime \<Rightarrow> StreamId \<Rightarrow> StreamId \<Rightarrow> chainAuth \<Rightarrow>
   (error + bool \<times> EntitlementResultReason) \<times> chainAuth" where
  "checkChannelEnabled rt sid cid ca =
     (case executeUsingCache rt The_entitlementCache (newArgsForEnabledChannel sid cid)
             isChannelEnabledUncached ca of
        (Inl err, ca1) \<Rightarrow> (Inl err, ca1)
      | (Inr (isEnabled, cacheHit), ca1) \<Rightarrow>
          (Inr (IsAllowed rt isEnabled, Reason rt isEnabled),
           Inc (if cacheHit then isChannelEnabledCacheHit else isChannelEnabledCacheMiss) ca1))"

text \<open>
  On a failed call the source returns a result with \<open>allowed = false\<close> beside the error (and
  \<^verbatim>\<open>checkMembershipUncached\<close> below a result with a nil status); the cache returns the error
  and drops that result.
\<close>

definition getSpaceEntitlementsForPermissionUncached ::
  "ChainAuthArgs \<Rightarrow> chainAuth \<Rightarrow> (error + CacheResult) \<times> chainAuth" where
  "getSpaceEntitlementsForPermissionUncached args ca =
     (case GetSpaceEntitlementsForPermission (spaceContract ca) (spaceId args) (permission args) of
        Inl err \<Rightarrow> (Inl (AsRiverError err None), ca)
      | Inr (entitlementData, ownr) \<Rightarrow>
          (Inr (entitlementCacheResult True entitlementData ownr), ca))"

definition getChannelEntitlementsForPermissionUncached ::
  "ChainAuthArgs \<Rightarrow> chainAuth \<Rightarrow> (error + CacheResult) \<times> chainAuth" where
  "getChannelEntitlementsForPermissionUncached args ca =
     (case GetChannelEntitlementsForPermission (spaceContract ca) (spaceId args)
             (channelId args) (permission args) of
        Inl err \<Rightarrow> (Inl (AsRiverError err None), ca)
      | Inr (entitlementData, ownr) \<Rightarrow>
          (Inr (entitlementCacheResult True entitlementData ownr), ca))"

definition isEntitledToChannelUncached ::
  "runtime \<Rightarrow> ChainAuthArgs \<Rightarrow> chainAuth \<Rightarrow> (error + CacheResult) \<times> chainAuth" where
  "isEntitledToChannelUncached rt args ca =
     (case executeUsingCache rt The_entitlementManagerCache args
             getChannelEntitlementsForPermissionUncached ca of
        (Inl err, ca1) \<Rightarrow> (Inl (AsRiverError err None), ca1)
      | (Inr (v, cacheHit), ca1) \<Rightarrow>
          (let ca2 = Inc (if cacheHit then entitlementCacheHit else entitlementCacheMiss) ca1 in
           case v of
             entitlementCacheResult allowed entitlementData ownr \<Rightarrow>
               (case evaluateWithEntitlements rt ca2 args ownr entitlementData of
                  Inl err \<Rightarrow> (Inl (AsRiverError err None), ca2)
                | Inr allowed \<Rightarrow>
                    (Inr (boolCacheResult allowed
                            EntitlementResultReason_CHANNEL_ENTITLEMENTS), ca2))
           | other \<Rightarrow> (Inl (Panic ''interface conversion''), ca2)))"

definition isEntitledToSpaceUncached ::
  "runtime \<Rightarrow> ChainAuthArgs \<Rightarrow> chainAuth \<Rightarrow> (error + CacheResult) \<times> chainAuth" where
  "isEntitledToSpaceUncached rt args ca =
     (case executeUsingCache rt The_entitlementManagerCache args
             getSpaceEntitlementsForPermissionUncached ca of
        (Inl err, ca1) \<Rightarrow> (Inl (AsRiverError err None), ca1)
      | (Inr (v, cacheHit), ca1) \<Rightarrow>
          (let ca2 = Inc (if cacheHit then entitlementCacheHit else entitlementCacheMiss) ca1 in
           case v of
             entitlementCacheResult allowed entitlementData ownr \<Rightarrow>
               (case evaluateWithEntitlements rt ca2 args ownr entitlementData of
                  Inl err \<Rightarrow> (Inl (AsRiverError err None), ca2)
                | Inr allowed \<Rightarrow>
                    (Inr (boolCacheResult allowed
                            EntitlementResultReason_SPACE_ENTITLEMENTS), ca2))
           | other \<Rightarrow> (Inl (Panic ''interface conversion''), ca2)))"

definition isEntitledToSpace ::
  "runtime \<Rightarrow> ChainAuthArgs \<Rightarrow> chainAuth \<Rightarrow>
   (error + bool \<times> EntitlementResultReason) \<times> chainAuth" where
  "isEntitledToSpace rt args ca =
     (if kind args \<noteq> chainAuthKindSpace
      then (Inl (RiverError Err_INTERNAL ''Wrong chain auth kind''), ca)
      else
        (case executeUsingCache rt The_entitlementCache args (isEntitledToSpaceUncached rt) ca of
           (Inl err, ca1) \<Rightarrow> (Inl err, ca1)
         | (Inr (isEntitled, cacheHit), ca1) \<Rightarrow>
             (Inr (IsAllowed rt isEntitled, Reason rt isEntitled),
              Inc (if cacheHit then isEntitledToSpaceCacheHit
                   else isEntitledToSpaceCacheMiss) ca1)))"

definition isEntitledToChannel ::
  "runtime \<Rightarrow> ChainAuthArgs \<Rightarrow> chainAuth \<Rightarrow>
   (error + bool \<times> EntitlementResultReason) \<times> chainAuth" where
  "isEntitledToChannel rt args ca =
     (if kind args \<noteq> chainAuthKindChannel
      then (Inl (RiverError Err_INTERNAL ''Wrong chain auth kind''), ca)
      else
        (case executeUsingCache rt The_entitlementCache args
                (isEntitledToChannelUncached rt) ca of
           (Inl err, ca1) \<Rightarrow> (Inl err, ca1)
         | (Inr (isEntitled, cacheHit), ca1) \<Rightarrow>
             (Inr (IsAllowed rt isEntitled, Reason rt isEntitled),
              Inc (if cacheHit then isEntitledToChannelCacheHit
                   else isEntitledToChannelCacheMiss) ca1)))"

definition areLinkedWalletsEntitled ::
  "runtime \<Rightarrow> ChainAuthArgs \<Rightarrow> chainAuth \<Rightarrow>
   (error + bool \<times> EntitlementResultReason) \<times> chainAuth" where
  "areLinkedWalletsEntitled rt args ca =
     (if kind args = chainAuthKindSpace then isEntitledToSpace rt args ca
      else if kind args = chainAuthKindChannel then isEntitledToChannel rt args ca
      else if kind args = chainAuthKindIsSpaceMember
      then (Inr (True, EntitlementResultReason_NONE), ca)
      else (Inl (RiverError Err_INTERNAL ''Unknown chain auth kind''), ca))"

definition getLinkedWalletsUncached ::
  "ChainAuthArgs \<Rightarrow> chainAuth \<Rightarrow> (error + CacheResult) \<times> chainAuth" where
  "getLinkedWalletsUncached args ca =
     (case GetLinkedWallets (evaluator ca) (principal args) of
        Inl err \<Rightarrow> (Inl err, ca)
      | Inr wallets \<Rightarrow> (Inr (linkedWalletCacheValue wallets), ca))"

definition getLinkedWallets ::
  "runtime \<Rightarrow> ChainAuthArgs \<Rightarrow> chainAuth \<Rightarrow> (error + address list) \<times> chainAuth" where
  "getLinkedWallets rt args ca =
     (if walletLinkContract ca = None then (Inr [principal args], ca)
      else
        (let userCacheKey = newArgsForLinkedWallets (principal args);
             ca1 = (if permission args = PermissionRead
                       \<or> kind args = chainAuthKindIsSpaceMember
                       \<or> kind args = chainAuthKindIsWalletLinked
                    then Inc linkedWalletCacheBust (bust The_linkedWalletCache userCacheKey ca)
                    else ca)
         in case executeUsingCache rt The_linkedWalletCache userCacheKey
                   getLinkedWalletsUncached ca1 of
              (Inl err, ca2) \<Rightarrow> (Inl err, ca2)
            | (Inr (v, cacheHit), ca2) \<Rightarrow>
                (let ca3 = Inc (if cacheHit then linkedWalletCacheHit
                                else linkedWalletCacheMiss) ca2 in
                 case v of
                   linkedWalletCacheValue wallets \<Rightarrow> (Inr wallets, ca3)
                 | other \<Rightarrow> (Inl (Panic ''interface conversion''), ca3))))"

definition checkMembershipUncached ::
  "ChainAuthArgs \<Rightarrow> chainAuth \<Rightarrow> (error + CacheResult) \<times> chainAuth" where
  "checkMembershipUncached args ca =
     (case GetMembershipStatus (spaceContract ca) (spaceId args) (principal args) of
        Inl err \<Rightarrow> (Inl err, ca)
      | Inr membershipStatus \<Rightarrow> (Inr (membershipStatusCacheResult (Some membershipStatus)), ca))"

text \<open>
  The two channels of the membership probes, each buffered to the number of wallets, so that
  no probe waits for the reader. \<open>crashed\<close> records a probe that panicked.
\<close>

record probeChannels =
  isMemberResults :: "MembershipStatus option list"
  isMemberError :: "error list"
  crashed :: bool

text \<open>One probe: it sends either its error or its result.\<close>

definition checkMembership ::
  "runtime \<Rightarrow> address \<Rightarrow> StreamId \<Rightarrow> probeChannels \<Rightarrow> chainAuth \<Rightarrow> probeChannels \<times> chainAuth" where
  "checkMembership rt addr sid chans ca =
     (let args = zeroChainAuthArgs\<lparr>kind := chainAuthKindIsSpaceMember, spaceId := sid,
                                   principal := addr\<rparr>
      in case executeUsingCache rt The_membershipCache args checkMembershipUncached ca of
           (Inl err, ca1) \<Rightarrow> (chans\<lparr>isMemberError := isMemberError chans @ [err]\<rparr>, ca1)
         | (Inr (v, cacheHit), ca1) \<Rightarrow>
             (let ca2 = Inc (if cacheHit then membershipCacheHit else membershipCacheMiss) ca1 in
              case v of
                membershipStatusCacheResult status \<Rightarrow>
                  (chans\<lparr>isMemberResults := isMemberResults chans @ [status]\<rparr>, ca2)
              | other \<Rightarrow> (chans\<lparr>crashed := True\<rparr>, ca2)))"

text \<open>
  The probes run one after the other, in the order in which they complete, each to its end:
  the channels are buffered, so this is an execution of the source for every order. The
  source cancels the probes still running once a fresh member is read; what those would have
  sent is not read then.
\<close>

fun runProbes ::
  "runtime \<Rightarrow> StreamId \<Rightarrow> address list \<Rightarrow> probeChannels \<Rightarrow> chainAuth \<Rightarrow> probeChannels \<times> chainAuth" where
  "runProbes rt sid [] chans ca = (chans, ca)"
| "runProbes rt sid (addr # rest) chans ca =
     (case checkMembership rt addr sid chans ca of
        (chans1, ca1) \<Rightarrow> runProbes rt sid rest chans1 ca1)"

text \<open>
  The loop over the results channel, with the variables \<open>isMember\<close> and \<open>isExpired\<close>; a nil
  status panics on the field read.
\<close>

fun resultsLoop :: "MembershipStatus option list \<Rightarrow> bool \<Rightarrow> bool \<Rightarrow> error + bool \<times> bool" where
  "resultsLoop [] isMem isExp = Inr (isMem, isExp)"
| "resultsLoop (None # rest) isMem isExp =
     Inl (Panic ''invalid memory address or nil pointer dereference'')"
| "resultsLoop (Some status # rest) isMem isExp =
     (if IsMember status then
        (if \<not> IsExpired status then Inr (True, False)
         else resultsLoop rest True isExp)
      else resultsLoop rest isMem isExp)"

text \<open>
  The loop over the error channel, joining the errors into \<open>membershipError\<close>. A probe sends
  an error only when it is not nil, so the loop's test for nil always passes.
\<close>

fun errorsLoop :: "error list \<Rightarrow> error option \<Rightarrow> error option" where
  "errorsLoop [] membershipError = membershipError"
| "errorsLoop (err # rest) membershipError =
     errorsLoop rest
       (case membershipError of
          Some e \<Rightarrow> Some (Joined e err)
        | None \<Rightarrow> Some err)"

text \<open>
  What \<^verbatim>\<open>checkEntitlement\<close> decides from the two channels: an error, a negative result, or
  (\<open>None\<close>) to go on to the entitlement evaluation.
\<close>

definition membershipDecision :: "probeChannels \<Rightarrow> error + CacheResult option" where
  "membershipDecision chans =
     (if crashed chans then Inl (Panic ''interface conversion'')
      else
        (case resultsLoop (isMemberResults chans) False True of
           Inl err \<Rightarrow> Inl err
         | Inr (isMem, isExp) \<Rightarrow>
             if \<not> isMem then
               (case errorsLoop (isMemberError chans) None of
                  Some membershipError \<Rightarrow>
                    Inl (AsRiverError membershipError (Some Err_CANNOT_CHECK_ENTITLEMENTS))
                | None \<Rightarrow> Inr (Some (boolCacheResult False EntitlementResultReason_MEMBERSHIP)))
             else if isExp
             then Inr (Some (boolCacheResult False EntitlementResultReason_MEMBERSHIP_EXPIRED))
             else Inr None))"

definition checkStreamIsEnabled ::
  "runtime \<Rightarrow> ChainAuthArgs \<Rightarrow> chainAuth \<Rightarrow>
   (error + bool \<times> EntitlementResultReason) \<times> chainAuth" where
  "checkStreamIsEnabled rt args ca =
     (if kind args = chainAuthKindSpace \<or> kind args = chainAuthKindIsSpaceMember
      then checkSpaceEnabled rt (spaceId args) ca
      else if kind args = chainAuthKindChannel
      then checkChannelEnabled rt (spaceId args) (channelId args) ca
      else if kind args = chainAuthKindIsWalletLinked
      then (Inr (True, EntitlementResultReason_NONE), ca)
      else (Inl (RiverError Err_INTERNAL ''Unknown chain auth kind''), ca))"

text \<open>
  \<^verbatim>\<open>checkEntitlement\<close> from the point where the wallet list has passed the limit: the probes,
  the decision on their outcome, and the entitlement evaluation.
\<close>

definition checkEntitlementOfWallets ::
  "runtime \<Rightarrow> ChainAuthArgs \<Rightarrow> address list \<Rightarrow> chainAuth \<Rightarrow> (error + CacheResult) \<times> chainAuth" where
  "checkEntitlementOfWallets rt args0 wallets ca =
     (let args = withLinkedWallets (keccak256 rt) args0 wallets in
      case runProbes rt (spaceId args) (completionOrder rt wallets)
             \<lparr>isMemberResults = [], isMemberError = [], crashed = False\<rparr> ca of
        (chans, ca1) \<Rightarrow>
          (case membershipDecision chans of
             Inl err \<Rightarrow> (Inl err, ca1)
           | Inr (Some denied) \<Rightarrow> (Inr denied, ca1)
           | Inr None \<Rightarrow>
               (case areLinkedWalletsEntitled rt args ca1 of
                  (Inl err, ca2) \<Rightarrow> (Inl err, ca2)
                | (Inr (res, why), ca2) \<Rightarrow> (Inr (boolCacheResult res why), ca2))))"

definition checkEntitlement ::
  "runtime \<Rightarrow> ChainAuthArgs \<Rightarrow> chainAuth \<Rightarrow> (error + CacheResult) \<times> chainAuth" where
  "checkEntitlement rt args ca =
     (case checkStreamIsEnabled rt args ca of
        (Inl err, ca1) \<Rightarrow> (Inl err, ca1)
      | (Inr (isEnabled, why), ca1) \<Rightarrow>
          if \<not> isEnabled then (Inr (boolCacheResult False why), ca1)
          else
            (case getLinkedWallets rt args ca1 of
               (Inl err, ca2) \<Rightarrow> (Inl err, ca2)
             | (Inr wallets, ca2) \<Rightarrow>
                 if kind args = chainAuthKindIsWalletLinked then
                   (if anyWalletEquals wallets (walletAddress args)
                    then (Inr (boolCacheResult True EntitlementResultReason_NONE), ca2)
                    else (Inr (boolCacheResult False
                                 EntitlementResultReason_WALLET_NOT_LINKED), ca2))
                 else if int (length wallets) > linkedWalletsLimit ca2
                 then (Inl (RiverError Err_RESOURCE_EXHAUSTED
                              ''too many wallets linked to the root key''), ca2)
                 else checkEntitlementOfWallets rt args wallets ca2))"

definition IsEntitled ::
  "runtime \<Rightarrow> ChainAuthArgs \<Rightarrow> chainAuth \<Rightarrow> (error + isEntitledResult) \<times> chainAuth" where
  "IsEntitled rt args ca =
     (case executeUsingCache rt The_entitlementCache args (checkEntitlement rt) ca of
        (Inl err, ca1) \<Rightarrow> (Inl (AsRiverError err None), ca1)
      | (Inr (v, cacheHit), ca1) \<Rightarrow>
          (Inr \<lparr>isAllowed = IsAllowed rt v, reason = Reason rt v\<rparr>, ca1))"

section \<open>The evaluation of a record, as the spec states it\<close>

text \<open>The statement of section 4.6 of the spec for one record.\<close>

definition recordEvaluates ::
  "runtime \<Rightarrow> chainAuth \<Rightarrow> address list \<Rightarrow> Entitlement \<Rightarrow> error + bool" where
  "recordEvaluates rt ca wallets ent =
     (case EntitlementType ent of
        ModuleTypeRuleEntitlement \<Rightarrow>
          (case ConvertV1RuleDataToV2 rt (RuleEntitlement ent) of
             Inl err \<Rightarrow> Inl err
           | Inr reV2 \<Rightarrow> EvaluateRuleData (evaluator ca) wallets reV2)
      | ModuleTypeRuleEntitlementV2 \<Rightarrow>
          EvaluateRuleData (evaluator ca) wallets (RuleEntitlementV2 ent)
      | ModuleTypeUserEntitlement \<Rightarrow>
          Inr (everyone \<in> set (UserEntitlement ent)
               \<or> (\<exists>w \<in> set wallets. w \<in> set (UserEntitlement ent)))
      | ModuleTypeUnknown t \<Rightarrow> Inr False)"

text \<open>The first record that is true wins; an error before it fails the call.\<close>

fun firstTrue :: "(error + bool) list \<Rightarrow> error + bool" where
  "firstTrue [] = Inr False"
| "firstTrue (Inl err # rs) = Inl err"
| "firstTrue (Inr b # rs) = (if b then Inr True else firstTrue rs)"

section \<open>Concrete instances\<close>

text \<open>A small world on which the theorems below are instantiated.\<close>

definition demoAddr :: "byte \<Rightarrow> address" where
  "demoAddr n = replicate 19 0 @ [n]"

definition demoKeccak :: "string \<Rightarrow> byte list" where
  "demoKeccak s = replicate 32 0xa5"

definition demoUserList :: Entitlement where
  "demoUserList =
     \<lparr>EntitlementType = ModuleTypeUserEntitlement, RuleEntitlement = RuleDataV1 0,
      RuleEntitlementV2 = RuleDataV2 0, UserEntitlement = [everyone]\<rparr>"

definition demoSpaceContract :: SpaceContract where
  "demoSpaceContract =
     \<lparr>IsSpaceDisabled = (\<lambda>sid. Inr (sid = [2])),
      IsChannelDisabled = (\<lambda>sid cid. Inr (cid = [3])),
      GetSpaceEntitlementsForPermission = (\<lambda>sid p. Inr ([demoUserList], demoAddr 9)),
      GetChannelEntitlementsForPermission = (\<lambda>sid cid p. Inr ([demoUserList], demoAddr 9)),
      IsBanned = (\<lambda>sid ws. Inr (demoAddr 7 \<in> set ws)),
      GetMembershipStatus =
        (\<lambda>sid a. if a = demoAddr 4 then Inl (External ''rpc failure'')
                  else Inr \<lparr>IsMember = (a = demoAddr 1 \<or> a = demoAddr 3),
                           IsExpired = (a = demoAddr 3), ExpiryTime = 0\<rparr>)\<rparr>"

definition demoReceipt :: Receipt where
  "demoReceipt =
     \<lparr>Receipt.BlockNumber = 10,
      Receipt.Logs = [\<lparr>Log.Address = demoAddr 8, Log.Topics = [[1]], Log.Data = [2]\<rparr>]\<rparr>"

definition demoClient :: ChainClient where
  "demoClient =
     \<lparr>TransactionReceipt = (\<lambda>h. Inr demoReceipt),
      TransactionByHash =
        (\<lambda>h. Inr (\<lparr>Transaction.To = (if h = BytesToHash [1] then None else Some (demoAddr 8)),
                     Payload = []\<rparr>, False))\<rparr>"

definition demoEvaluator :: Evaluator where
  "demoEvaluator =
     \<lparr>GetClient = (\<lambda>c. Inr demoClient),
      EvaluateRuleData =
        (\<lambda>ws r. case r of RuleDataV2 n \<Rightarrow>
                   if n = 0 then Inl (External ''rule evaluation failed'') else Inr (n = 1)),
      GetLinkedWallets =
        (\<lambda>p. if p = demoAddr 5
              then Inr (map demoAddr [10, 11, 12, 13, 14, 15, 16, 17, 18, 19, 20])
              else if p = demoAddr 6
              then Inr (map demoAddr [10, 11, 12, 13, 14, 15, 16, 17, 18, 19])
              else Inr [p, demoAddr 2])\<rparr>"

definition demoCache :: entitlementCache where
  "demoCache = \<lparr>positiveCacheTTL = 900000, negativeCacheTTL = 2000, entries = (\<lambda>k. None)\<rparr>"

definition demoChainAuth :: chainAuth where
  "demoChainAuth =
     \<lparr>blockchain = \<lparr>Blockchain.BlockNumber = Inr 5\<rparr>, evaluator = demoEvaluator,
      spaceContract = demoSpaceContract, walletLinkContract = Some WalletLink,
      linkedWalletsLimit = 10, contractCallsTimeoutMs = 10000,
      entitlementCache = demoCache, membershipCache = demoCache,
      entitlementManagerCache = demoCache, linkedWalletCache = demoCache,
      counters = (\<lambda>c. 0)\<rparr>"

definition demoRuntime :: runtime where
  "demoRuntime =
     \<lparr>now = 1000, keccak256 = demoKeccak,
      ConvertV1RuleDataToV2 = (\<lambda>r. case r of RuleDataV1 n \<Rightarrow> Inr (RuleDataV2 n)),
      Sender = (\<lambda>tx. Inr (demoAddr 1)),
      completionOrder = rev,
      valueIsAllowed = (\<lambda>v. True),
      valueReason = (\<lambda>v. EntitlementResultReason_NONE)\<rparr>"

definition demoArgs :: "string \<Rightarrow> ChainAuthArgs" where
  "demoArgs serialized =
     zeroChainAuthArgs\<lparr>spaceId := [1], principal := demoAddr 1, linkedWallets := serialized\<rparr>"

definition demoEntitlements :: "Entitlement list" where
  "demoEntitlements =
     [\<lparr>EntitlementType = ModuleTypeUnknown ''Other'', RuleEntitlement = RuleDataV1 1,
       RuleEntitlementV2 = RuleDataV2 1, UserEntitlement = [demoAddr 1]\<rparr>,
      \<lparr>EntitlementType = ModuleTypeRuleEntitlement, RuleEntitlement = RuleDataV1 2,
       RuleEntitlementV2 = RuleDataV2 1, UserEntitlement = [demoAddr 1]\<rparr>,
      \<lparr>EntitlementType = ModuleTypeUserEntitlement, RuleEntitlement = RuleDataV1 0,
       RuleEntitlementV2 = RuleDataV2 0, UserEntitlement = [demoAddr 3, demoAddr 2]\<rparr>,
      \<lparr>EntitlementType = ModuleTypeRuleEntitlementV2, RuleEntitlement = RuleDataV1 0,
       RuleEntitlementV2 = RuleDataV2 0, UserEntitlement = []\<rparr>]"

definition demoUserReceipt :: "byte list \<Rightarrow> BlockchainTransactionReceipt" where
  "demoUserReceipt txh =
     \<lparr>ChainId = 1, TransactionHash = txh, BlockNumber = 10, To = demoAddr 8,
      From = demoAddr 1,
      Logs = [\<lparr>Address = demoAddr 8, Topics = [[1]], Data = [2]\<rparr>]\<rparr>"

definition demoWallets :: "nat \<Rightarrow> address list" where
  "demoWallets n = take n (map demoAddr [10, 11, 12, 13, 14, 15, 16, 17, 18, 19, 20])"

definition demoLinkedArgs :: "address \<Rightarrow> ChainAuthArgs" where
  "demoLinkedArgs w =
     zeroChainAuthArgs\<lparr>kind := chainAuthKindIsWalletLinked, principal := demoAddr 1,
                       walletAddress := w\<rparr>"






section \<open>Auxiliary notions\<close>

text \<open>A hexadecimal digit produced by the encoder, in either case.\<close>

definition digitOf :: "char \<Rightarrow> nat \<Rightarrow> bool" where
  "digitOf c n = (n < 16 \<and> reverseHexTable c = of_nat n \<and> c \<noteq> CHR '','')"

text \<open>The two half-bytes of each byte, high one first.\<close>

fun nibbles :: "byte list \<Rightarrow> nat list" where
  "nibbles [] = []"
| "nibbles (v # vs) = unat (drop_bit 4 v) # unat (v AND 0x0f) # nibbles vs"

text \<open>A chain log and an uploaded log agree byte for byte.\<close>

definition sameLog :: "Log \<Rightarrow> BlockchainTransactionReceipt_Log \<Rightarrow> bool" where
  "sameLog chainLog uploadedLog =
     (Log.Address chainLog = BlockchainTransactionReceipt_Log.Address uploadedLog
      \<and> Log.Topics chainLog = BlockchainTransactionReceipt_Log.Topics uploadedLog
      \<and> Log.Data chainLog = BlockchainTransactionReceipt_Log.Data uploadedLog)"

text \<open>
  The membership cache holds membership results with a status, as the probes store them.
\<close>

definition membershipCacheFilled :: "chainAuth \<Rightarrow> bool" where
  "membershipCacheFilled ca =
     (\<forall>k v. entries (membershipCache ca) k = Some v \<longrightarrow>
            (\<exists>s. result v = membershipStatusCacheResult (Some s)))"

definition channelsSound :: "probeChannels \<Rightarrow> bool" where
  "channelsSound chans = (\<not> crashed chans \<and> None \<notin> set (isMemberResults chans))"

section \<open>Serialized wallet lists round-trip\<close>

lemma fifteen_mask: "(0x0f :: byte) = mask 4"
  by (simp add: mask_eq_exp_minus_1)

lemma unat_hi_nibble: "unat (drop_bit 4 (v::byte)) < 16"
proof -
  have "unat v < 256" using unsigned_less [of v, where ?'a = nat] by simp
  then have "unat v div 16 < 16" by arith
  then show ?thesis by (simp add: unat_drop_bit_eq drop_bit_eq_div unat_div)
qed

lemma unat_lo_nibble: "unat ((v::byte) AND 0x0f) < 16"
proof -
  have "take_bit 4 (unat v) < (2::nat) ^ 4"
    by (rule take_bit_nat_less_exp)
  then have "unat (take_bit 4 v) < 16"
    by (simp add: unsigned_take_bit_eq)
  then show ?thesis by (simp add: fifteen_mask take_bit_eq_mask)
qed

lemma nibbles_join: "push_bit 4 (drop_bit 4 v) OR (v AND 0x0f) = (v::byte)"
  unfolding fifteen_mask
  by (rule bit_word_eqI) (auto simp add: bit_simps)


lemma hextable_digits:
  "list_all (\<lambda>n. digitOf (hextable ! n) n
      \<and> (if (of_char (hextable ! n) :: nat) > of_char CHR ''9''
          then digitOf (char_of ((of_char (hextable ! n) :: nat) - 32)) n else True))
     [0..<16]"
  by code_simp

lemma digitOf_hextable: "n < 16 \<Longrightarrow> digitOf (hextable ! n) n"
  using hextable_digits by (simp add: list_all_iff)

lemma digitOf_checksum:
  "n < 16 \<Longrightarrow>
   digitOf (if (of_char (hextable ! n) :: nat) > of_char CHR ''9'' \<and> b
            then char_of ((of_char (hextable ! n) :: nat) - 32) else hextable ! n) n"
  using hextable_digits by (auto simp add: list_all_iff split: if_splits)

lemma nibbles_lt: "n \<in> set (nibbles vs) \<Longrightarrow> n < 16"
  by (induction vs) (auto simp add: unat_hi_nibble unat_lo_nibble)

lemma Encode_nibbles: "Encode vs = map (\<lambda>n. hextable ! n) (nibbles vs)"
  by (induction vs) simp_all

lemma checksumLoop_digits:
  "\<forall>n \<in> set ns. n < 16 \<Longrightarrow>
   list_all2 digitOf (checksumLoop hash i (map (\<lambda>n. hextable ! n) ns)) ns"
proof (induction ns arbitrary: i)
  case Nil
  show ?case by simp
next
  case (Cons n ns)
  then have n: "n < 16" and rest: "\<forall>m \<in> set ns. m < 16" by simp_all
  show ?case
    using digitOf_checksum [OF n] digitOf_hextable [OF n] Cons.IH [OF rest]
    by (simp add: Let_def)
qed

lemma Decode_digits:
  "list_all2 digitOf cs (nibbles vs) \<Longrightarrow> Decode cs = (vs, None)"
proof (induction vs arbitrary: cs)
  case Nil
  then show ?case by simp
next
  case (Cons v vs)
  from Cons.prems obtain p q rest where cs: "cs = p # q # rest"
    and p: "digitOf p (unat (drop_bit 4 v))" and q: "digitOf q (unat (v AND 0x0f))"
    and rest: "list_all2 digitOf rest (nibbles vs)"
    by (auto simp add: list_all2_Cons2)
  have rp: "reverseHexTable p = drop_bit 4 v" using p by (simp add: digitOf_def)
  have rq: "reverseHexTable q = v AND 0x0f" using q by (simp add: digitOf_def)
  have hi: "\<not> drop_bit 4 v > 0x0f"
    using unat_hi_nibble [of v] by (simp add: word_less_nat_alt)
  have lo: "\<not> (v AND 0x0f) > 0x0f"
    using unat_lo_nibble [of v] by (simp add: word_less_nat_alt)
  show ?case
    using Cons.IH [OF rest] hi lo nibbles_join [of v]
    by (simp add: cs rp rq)
qed

lemma digits_no_comma: "list_all2 digitOf cs ns \<Longrightarrow> CHR '','' \<notin> set cs"
  by (induction rule: list_all2_induct) (auto simp add: digitOf_def)

lemma length_nibbles: "length (nibbles vs) = 2 * length vs"
  by (induction vs) simp_all

lemma Hex_shape:
  "\<exists>cs. Hex k a = ''0x'' @ cs \<and> list_all2 digitOf cs (nibbles a)"
  using checksumLoop_digits [of "nibbles a"] nibbles_lt
  by (simp add: Hex_def checksumHex_def hex_def Let_def Encode_nibbles)

lemma BytesToAddress_id: "length a = 20 \<Longrightarrow> BytesToAddress a = a"
  by (simp add: BytesToAddress_def AddressLength_def)

lemma HexToAddress_Hex:
  assumes "length a = 20"
  shows "HexToAddress (Hex k a) = a"
proof -
  obtain cs where h: "Hex k a = ''0x'' @ cs" and d: "list_all2 digitOf cs (nibbles a)"
    using Hex_shape by blast
  have len: "length cs = 40"
    using list_all2_lengthD [OF d] assms by (simp add: length_nibbles)
  show ?thesis
    using Decode_digits [OF d] assms len
    by (simp add: HexToAddress_def FromHex_def has0xPrefix_def Hex2Bytes_def h BytesToAddress_id)
qed

lemma Hex_no_comma: "CHR '','' \<notin> set (Hex k a)"
proof -
  obtain cs where h: "Hex k a = ''0x'' @ cs" and d: "list_all2 digitOf cs (nibbles a)"
    using Hex_shape by blast
  show ?thesis using digits_no_comma [OF d] by (simp add: h)
qed

lemma Split_no_sep: "sep \<notin> set s \<Longrightarrow> Split s sep = [s]"
  by (induction s) auto

lemma Split_append:
  "sep \<notin> set s \<Longrightarrow> Split (s @ sep # t) sep = s # Split t sep"
  by (induction s) auto


lemma writeWallets_tail:
  "i > 0 \<Longrightarrow>
   writeWallets k i ws b = b @ concat (map (\<lambda>a. CHR '','' # Hex k a) ws)"
  by (induction ws arbitrary: i b) simp_all

lemma writeWallets_Cons:
  "writeWallets k 0 (a # ws) [] = Hex k a @ concat (map (\<lambda>a. CHR '','' # Hex k a) ws)"
  by (simp add: writeWallets_tail)

lemma Split_joined:
  "Split (Hex k a @ concat (map (\<lambda>a. CHR '','' # Hex k a) ws)) CHR '',''
   = Hex k a # map (Hex k) ws"
proof (induction ws arbitrary: a)
  case Nil
  show ?case by (simp add: Split_no_sep Hex_no_comma)
next
  case (Cons b ws)
  show ?case
    using Split_append [OF Hex_no_comma, of k a "Hex k b @ concat (map (\<lambda>a. CHR '','' # Hex k a) ws)"]
      Cons.IH [of b]
    by simp
qed

lemma deserialize_serialized:
  assumes "\<forall>a \<in> set ws. length a = AddressLength" and "ws \<noteq> []"
  shows "deserializeWallets (writeWallets k 0 ws []) = ws"
proof -
  obtain a rest where ws: "ws = a # rest" using assms(2) by (cases ws) auto
  have "map HexToAddress (map (Hex k) ws) = ws"
    using assms(1) by (induction ws) (simp_all add: HexToAddress_Hex AddressLength_def)
  moreover have "Split (writeWallets k 0 ws []) CHR '','' = map (Hex k) ws"
    by (simp only: ws writeWallets_Cons Split_joined list.map)
  ultimately show ?thesis
    by (simp only: deserializeWallets_def)
qed

lemma HexToAddress_empty: "HexToAddress [] = zeroAddress"
  by (simp add: HexToAddress_def FromHex_def has0xPrefix_def Hex2Bytes_def BytesToAddress_def
      zeroAddress_def)

text \<open>
  C10. For a non-empty list of 20-byte addresses, deserializing the string that
  withLinkedWallets builds gives the list back, in order, whatever the checksum hash; for
  the empty list the string is empty and deserializes to the one-element list holding the
  zero address, so the round trip fails there.
\<close>

theorem C10_wallets_roundtrip:
  "(ws \<noteq> [] \<and> (\<forall>a \<in> set ws. length a = AddressLength) \<longrightarrow>
      deserializeWallets (linkedWallets (withLinkedWallets k args ws)) = ws)
   \<and> deserializeWallets (linkedWallets (withLinkedWallets k args [])) = [zeroAddress]
   \<and> deserializeWallets (linkedWallets (withLinkedWallets k args [])) \<noteq> []"
proof (intro conjI impI)
  assume "ws \<noteq> [] \<and> (\<forall>a \<in> set ws. length a = AddressLength)"
  then show "deserializeWallets (linkedWallets (withLinkedWallets k args ws)) = ws"
    using deserialize_serialized [of ws k] by (simp add: withLinkedWallets_def)
next
  show "deserializeWallets (linkedWallets (withLinkedWallets k args [])) = [zeroAddress]"
    by (simp add: withLinkedWallets_def deserializeWallets_def HexToAddress_empty)
  then show "deserializeWallets (linkedWallets (withLinkedWallets k args [])) \<noteq> []"
    by simp
qed

theorem C10_wallets_roundtrip_witness:
  "[demoAddr 0xab, demoAddr 2] \<noteq> []
   \<and> length (demoAddr 0xab) = AddressLength \<and> length (demoAddr 2) = AddressLength
   \<and> linkedWallets (withLinkedWallets demoKeccak zeroChainAuthArgs [demoAddr 0xab, demoAddr 2])
       = ''0x00000000000000000000000000000000000000Ab,0x0000000000000000000000000000000000000002''
   \<and> deserializeWallets
        (linkedWallets (withLinkedWallets demoKeccak zeroChainAuthArgs [demoAddr 0xab, demoAddr 2]))
       = [demoAddr 0xab, demoAddr 2]"
proof -
  have s: "linkedWallets (withLinkedWallets demoKeccak zeroChainAuthArgs [demoAddr 0xab, demoAddr 2])
       = ''0x00000000000000000000000000000000000000Ab,0x0000000000000000000000000000000000000002''"
    by code_simp
  show ?thesis
    using C10_wallets_roundtrip [of "[demoAddr 0xab, demoAddr 2]" demoKeccak zeroChainAuthArgs] s
    by (simp add: demoAddr_def AddressLength_def)
qed

section \<open>Entitlement evaluation\<close>

lemma anyWalletEquals_iff: "anyWalletEquals ws x = (x \<in> set ws)"
  by (induction ws) auto

lemma userEntitlementLoop_iff:
  "userEntitlementLoop users ws = (everyone \<in> set users \<or> (\<exists>w \<in> set ws. w \<in> set users))"
  by (induction users) (auto simp add: anyWalletEquals_iff)

lemma entitlementLoop_firstTrue:
  "entitlementLoop rt ca ws ents = firstTrue (map (recordEvaluates rt ca ws) ents)"
proof (induction ents)
  case Nil
  show ?case by simp
next
  case (Cons ent ents)
  show ?case
  proof (cases "EntitlementType ent")
    case ModuleTypeRuleEntitlement
    then show ?thesis
      using Cons.IH by (simp add: recordEvaluates_def split: sum.splits)
  next
    case ModuleTypeRuleEntitlementV2
    then show ?thesis
      using Cons.IH by (simp add: recordEvaluates_def split: sum.splits)
  next
    case ModuleTypeUserEntitlement
    then show ?thesis
      using Cons.IH by (simp add: recordEvaluates_def userEntitlementLoop_iff)
  next
    case (ModuleTypeUnknown t)
    then show ?thesis
      using Cons.IH by (simp add: recordEvaluates_def)
  qed
qed

lemma firstTrue_no_error:
  "\<forall>x \<in> set xs. \<exists>b. f x = Inr b \<Longrightarrow>
   firstTrue (map f xs) = Inr (\<exists>x \<in> set xs. f x = Inr True)"
proof (induction xs)
  case Nil
  show ?case by simp
next
  case (Cons x xs)
  then obtain b where r: "f x = Inr b" by auto
  from Cons show ?case by (cases b) (auto simp add: r)
qed

lemma demo_wallets_owner: "deserializeWallets ''0x9,0x2'' = [demoAddr 9, demoAddr 2]"
  by code_simp

lemma demo_wallets_banned: "deserializeWallets ''0x7'' = [demoAddr 7]"
  by code_simp

lemma demo_wallets_two: "deserializeWallets ''0x1,0x2'' = [demoAddr 1, demoAddr 2]"
  by code_simp

lemma everyone_eq: "everyone = demoAddr 1"
  by code_simp

lemma demoAddr_eq_iff: "(demoAddr m = demoAddr n) = (m = n)"
  by (simp add: demoAddr_def)

text \<open>
  C1. When the owner is among the deserialized linked wallets, evaluateWithEntitlements
  returns true without error, for every space contract (so whatever IsBanned would answer)
  and every list of entitlement records. When the owner is not among them and IsBanned
  answers true, it returns false without error, for every list of entitlement records.
\<close>

theorem C1_owner_before_ban:
  "(ownr \<in> set (deserializeWallets (linkedWallets args)) \<longrightarrow>
      evaluateWithEntitlements rt ca args ownr ents = Inr True)
   \<and> (ownr \<notin> set (deserializeWallets (linkedWallets args))
        \<and> IsBanned (spaceContract ca) (spaceId args) (deserializeWallets (linkedWallets args))
            = Inr True \<longrightarrow>
      evaluateWithEntitlements rt ca args ownr ents = Inr False)"
  by (simp add: evaluateWithEntitlements_def anyWalletEquals_iff Let_def)

theorem C1_owner_before_ban_witness:
  "evaluateWithEntitlements demoRuntime
     (demoChainAuth\<lparr>spaceContract := demoSpaceContract\<lparr>IsBanned := (\<lambda>sid ws. Inr True)\<rparr>\<rparr>)
     (demoArgs ''0x9,0x2'') (demoAddr 9) [] = Inr True
   \<and> evaluateEntitlementData demoRuntime demoChainAuth [demoUserList] (demoArgs ''0x7'') = Inr True
   \<and> evaluateWithEntitlements demoRuntime demoChainAuth (demoArgs ''0x7'') (demoAddr 9)
        [demoUserList] = Inr False"
proof -
  have owner: "demoAddr 9 \<in> set (deserializeWallets (linkedWallets (demoArgs ''0x9,0x2'')))"
    by (simp add: demoArgs_def demo_wallets_owner)
  have stranger: "demoAddr 9 \<notin> set (deserializeWallets (linkedWallets (demoArgs ''0x7'')))"
    by (simp add: demoArgs_def demo_wallets_banned demoAddr_eq_iff)
  have banned: "IsBanned (spaceContract demoChainAuth) (spaceId (demoArgs ''0x7''))
                  (deserializeWallets (linkedWallets (demoArgs ''0x7''))) = Inr True"
    by (simp add: demoArgs_def demo_wallets_banned demoChainAuth_def demoSpaceContract_def)
  have passing: "evaluateEntitlementData demoRuntime demoChainAuth [demoUserList]
                   (demoArgs ''0x7'') = Inr True"
    by (simp add: evaluateEntitlementData_def demoUserList_def)
  show ?thesis
    using C1_owner_before_ban [of "demoAddr 9" "demoArgs ''0x9,0x2''" demoRuntime
        "demoChainAuth\<lparr>spaceContract := demoSpaceContract\<lparr>IsBanned := (\<lambda>sid ws. Inr True)\<rparr>\<rparr>" "[]"]
      C1_owner_before_ban [of "demoAddr 9" "demoArgs ''0x7''" demoRuntime demoChainAuth
        "[demoUserList]"]
      owner stranger banned passing
    by simp
qed

text \<open>
  C2. evaluateEntitlementData scans the records in order over the deserialized wallets: the
  first record that evaluates to true makes the result true, an error of the conversion or
  of the rule evaluator met before that is the result, and with neither the result is
  false. A record evaluates as the spec says: a rule V1 record is converted and given to the
  rule evaluator, a rule V2 record is given to it directly, a user list is true exactly when
  it holds the everyone address or one of the wallets, and any other record is false. Hence,
  when no record fails, the result is true exactly when some record evaluates to true.
\<close>

theorem C2_first_true_record:
  "evaluateEntitlementData rt ca ents args
     = firstTrue (map (recordEvaluates rt ca (deserializeWallets (linkedWallets args))) ents)
   \<and> ((\<forall>ent \<in> set ents.
          \<exists>b. recordEvaluates rt ca (deserializeWallets (linkedWallets args)) ent = Inr b) \<longrightarrow>
        evaluateEntitlementData rt ca ents args
          = Inr (\<exists>ent \<in> set ents.
                   recordEvaluates rt ca (deserializeWallets (linkedWallets args)) ent = Inr True))"
proof -
  let ?ws = "deserializeWallets (linkedWallets args)"
  have scan: "evaluateEntitlementData rt ca ents args
                = firstTrue (map (recordEvaluates rt ca ?ws) ents)"
    by (simp add: evaluateEntitlementData_def entitlementLoop_firstTrue)
  have "firstTrue (map (recordEvaluates rt ca ?ws) ents)
          = Inr (\<exists>ent \<in> set ents. recordEvaluates rt ca ?ws ent = Inr True)"
    if "\<forall>ent \<in> set ents. \<exists>b. recordEvaluates rt ca ?ws ent = Inr b"
    using that by (rule firstTrue_no_error)
  with scan show ?thesis by simp
qed

theorem C2_first_true_record_witness:
  "evaluateEntitlementData demoRuntime demoChainAuth (take 3 demoEntitlements)
     (demoArgs ''0x1,0x2'') = Inr True
   \<and> evaluateEntitlementData demoRuntime demoChainAuth (take 2 demoEntitlements)
     (demoArgs ''0x1,0x2'') = Inr False
   \<and> evaluateEntitlementData demoRuntime demoChainAuth (rev demoEntitlements)
     (demoArgs ''0x1,0x2'') = Inl (External ''rule evaluation failed'')"
proof -
  have ws: "deserializeWallets (linkedWallets (demoArgs ''0x1,0x2'')) = [demoAddr 1, demoAddr 2]"
    by (simp add: demoArgs_def demo_wallets_two)
  show ?thesis
    using C2_first_true_record [of demoRuntime demoChainAuth "take 3 demoEntitlements"
        "demoArgs ''0x1,0x2''"]
      C2_first_true_record [of demoRuntime demoChainAuth "take 2 demoEntitlements"
        "demoArgs ''0x1,0x2''"]
      C2_first_true_record [of demoRuntime demoChainAuth "rev demoEntitlements"
        "demoArgs ''0x1,0x2''"]
    by (simp add: ws demoEntitlements_def recordEvaluates_def demoRuntime_def demoChainAuth_def
        demoEvaluator_def everyone_eq demoAddr_eq_iff)
qed

section \<open>Properties of receipt verification\<close>

lemma compareTopics_None_iff:
  "length ts = length us \<Longrightarrow> (compareTopics j ts us = None) = (ts = us)"
  by (induction j ts us rule: compareTopics.induct) auto

lemma compareTopics_same: "compareTopics j ts ts = None"
  by (simp add: compareTopics_None_iff)

lemma compareLogs_None_iff:
  "length cls = length uls \<Longrightarrow> (compareLogs i cls uls = None) = list_all2 sameLog cls uls"
proof (induction i cls uls rule: compareLogs.induct)
  case (1 i uploaded)
  then show ?case by simp
next
  case (2 i chainLog logs)
  then show ?case by simp
next
  case (3 i chainLog logs uploadedLog uploaded)
  then show ?case
    by (auto simp add: sameLog_def compareTopics_None_iff compareTopics_same
        split: option.splits)
qed

lemma word_lt_one_iff: "((x :: 64 word) < 1) = (x = 0)"
  by (simp add: word_less_1)

lemma VerifyReceipt_after_comparisons:
  assumes "GetClient (evaluator ca) (ChainId u) = Inr client"
    and "TransactionReceipt client (BytesToHash (TransactionHash u)) = Inr cr"
    and "Uint64 (Receipt.BlockNumber cr) = BlockchainTransactionReceipt.BlockNumber u"
    and "list_all2 sameLog (Receipt.Logs cr) (BlockchainTransactionReceipt.Logs u)"
    and "TransactionByHash client (BytesToHash (TransactionHash u)) = Inr (tx, False)"
    and "Transaction.To tx = Some (BlockchainTransactionReceipt.To u)"
    and "Sender rt tx = Inr (From u)"
    and "Blockchain.BlockNumber (blockchain ca) = Inr latest"
  shows "VerifyReceipt rt ca u =
           (if latest = Uint64 (Receipt.BlockNumber cr)
            then Inl (RiverError Err_PERMISSION_DENIED ''Transaction has 0 confirmations.'')
            else Inr True)"
proof -
  have len: "length (Receipt.Logs cr) = length (BlockchainTransactionReceipt.Logs u)"
    using assms(4) by (rule list_all2_lengthD)
  have logs: "compareLogs 0 (Receipt.Logs cr) (BlockchainTransactionReceipt.Logs u) = None"
    using assms(4) compareLogs_None_iff [OF len] by simp
  show ?thesis
    using assms(1,2,3,5,6,7,8) len logs
    by (simp add: VerifyReceipt_def Let_def word_lt_one_iff)
qed

lemma VerifyReceipt_true_only_if:
  assumes "VerifyReceipt rt ca u = Inr True"
  shows "\<exists>client cr tx latest.
           GetClient (evaluator ca) (ChainId u) = Inr client
           \<and> TransactionReceipt client (BytesToHash (TransactionHash u)) = Inr cr
           \<and> Uint64 (Receipt.BlockNumber cr) = BlockchainTransactionReceipt.BlockNumber u
           \<and> list_all2 sameLog (Receipt.Logs cr) (BlockchainTransactionReceipt.Logs u)
           \<and> TransactionByHash client (BytesToHash (TransactionHash u)) = Inr (tx, False)
           \<and> Transaction.To tx = Some (BlockchainTransactionReceipt.To u)
           \<and> Sender rt tx = Inr (From u)
           \<and> Blockchain.BlockNumber (blockchain ca) = Inr latest
           \<and> latest \<noteq> Uint64 (Receipt.BlockNumber cr)"
  using assms
  by (auto simp add: VerifyReceipt_def Let_def word_lt_one_iff compareLogs_None_iff
      split: sum.splits if_splits option.splits prod.splits)

lemma compareTopics_Some:
  "length ts = length us \<Longrightarrow> compareTopics j ts us = Some e \<Longrightarrow>
   errorCode e = Some Err_PERMISSION_DENIED"
  by (induction j ts us rule: compareTopics.induct) (auto split: if_splits)

lemma compareLogs_Some:
  "length cls = length uls \<Longrightarrow> compareLogs i cls uls = Some e \<Longrightarrow>
   errorCode e = Some Err_PERMISSION_DENIED"
proof (induction i cls uls rule: compareLogs.induct)
  case (1 i uploaded)
  then show ?case by simp
next
  case (2 i chainLog logs)
  then show ?case by simp
next
  case (3 i chainLog logs uploadedLog uploaded)
  then show ?case
    by (auto split: if_splits option.splits dest: compareTopics_Some)
qed

text \<open>
  When the chain receipt and the transaction are found and the transaction has a recipient,
  any disagreement between the uploaded receipt and the chain is answered by an error of
  code PERMISSION_DENIED.
\<close>

lemma VerifyReceipt_mismatch_denied:
  assumes "GetClient (evaluator ca) (ChainId u) = Inr client"
    and "TransactionReceipt client (BytesToHash (TransactionHash u)) = Inr cr"
    and "TransactionByHash client (BytesToHash (TransactionHash u)) = Inr (tx, pending)"
    and "Transaction.To tx = Some t"
    and "Sender rt tx = Inr s"
    and "\<not> (Uint64 (Receipt.BlockNumber cr) = BlockchainTransactionReceipt.BlockNumber u
            \<and> list_all2 sameLog (Receipt.Logs cr) (BlockchainTransactionReceipt.Logs u)
            \<and> \<not> pending
            \<and> t = BlockchainTransactionReceipt.To u
            \<and> s = From u)"
  shows "\<exists>e. VerifyReceipt rt ca u = Inl e \<and> errorCode e = Some Err_PERMISSION_DENIED"
proof (cases "Uint64 (Receipt.BlockNumber cr) = BlockchainTransactionReceipt.BlockNumber u")
  case False
  then show ?thesis using assms(1,2) by (simp add: VerifyReceipt_def Let_def)
next
  case block: True
  show ?thesis
  proof (cases "length (Receipt.Logs cr) = length (BlockchainTransactionReceipt.Logs u)")
    case False
    then show ?thesis using assms(1,2) block by (simp add: VerifyReceipt_def Let_def)
  next
    case len: True
    show ?thesis
    proof (cases "compareLogs 0 (Receipt.Logs cr) (BlockchainTransactionReceipt.Logs u)")
      case (Some e)
      then show ?thesis
        using assms(1,2) block len compareLogs_Some [OF len Some]
        by (simp add: VerifyReceipt_def Let_def)
    next
      case None
      then have logs: "list_all2 sameLog (Receipt.Logs cr) (BlockchainTransactionReceipt.Logs u)"
        using compareLogs_None_iff [OF len] by simp
      with assms(6) block
      have rest: "pending \<or> t \<noteq> BlockchainTransactionReceipt.To u \<or> s \<noteq> From u" by auto
      then show ?thesis
        using assms(1,2,3,4,5) block len None
        by (auto simp add: VerifyReceipt_def Let_def)
    qed
  qed
qed

lemma VerifyReceipt_receipt_error:
  assumes "GetClient (evaluator ca) (ChainId u) = Inr client"
    and "TransactionReceipt client (BytesToHash (TransactionHash u)) = Inl err"
  shows "VerifyReceipt rt ca u =
           (if errors_Is_NotFound err
            then Inl (RiverError Err_PERMISSION_DENIED ''Transaction receipt not found'')
            else Inl (AsRiverError err (Some Err_DOWNSTREAM_NETWORK_ERROR)))"
  using assms by (simp add: VerifyReceipt_def Let_def)

lemma demo_hash_distinct: "BytesToHash [2] \<noteq> BytesToHash [1]"
  by (simp add: BytesToHash_def HashLength_def)

text \<open>
  C4. The confirmation count is a 64-bit unsigned difference. On a chain receipt of block 10
  that passes every comparison, with the latest block number 5, the difference wraps around
  to a large number, the test for fewer than one confirmation fails, and VerifyReceipt
  returns true.
\<close>

theorem C4_confirmations_wrap:
  "Blockchain.BlockNumber (blockchain demoChainAuth) = Inr 5
   \<and> TransactionReceipt demoClient (BytesToHash [2]) = Inr demoReceipt
   \<and> Receipt.BlockNumber demoReceipt = 10
   \<and> VerifyReceipt demoRuntime demoChainAuth (demoUserReceipt [2]) = Inr True"
  by (simp add: VerifyReceipt_def demoChainAuth_def demoEvaluator_def demoClient_def
      demoReceipt_def demoUserReceipt_def demoRuntime_def Uint64_def Let_def
      demo_hash_distinct demoAddr_def)

text \<open>
  C9. A transaction that creates a contract has no recipient: its \<open>To\<close> is nil. On a receipt
  for such a transaction whose block number and logs agree with the chain, VerifyReceipt
  reaches the comparison of the recipient and panics on the nil address instead of returning
  a PERMISSION_DENIED error, although the uploaded recipient differs from the chain's.
\<close>

theorem C9_nil_recipient_panics:
  "TransactionByHash demoClient (BytesToHash (TransactionHash (demoUserReceipt [1])))
     = Inr (\<lparr>Transaction.To = None, Payload = []\<rparr>, False)
   \<and> BlockchainTransactionReceipt.To (demoUserReceipt [1]) = demoAddr 8
   \<and> VerifyReceipt demoRuntime demoChainAuth (demoUserReceipt [1])
       = Inl (Panic ''invalid memory address or nil pointer dereference'')"
  by (simp add: VerifyReceipt_def demoChainAuth_def demoEvaluator_def demoClient_def
      demoReceipt_def demoUserReceipt_def demoRuntime_def Uint64_def Let_def demoAddr_def)

section \<open>Properties of the decision pipeline\<close>




lemma errorsLoop_Some: "errorsLoop es (Some e) = Some (foldl Joined e es)"
  by (induction es arbitrary: e) simp_all

lemma errorsLoop_Cons: "errorsLoop (e # es) None = Some (foldl Joined e es)"
  by (simp add: errorsLoop_Some)


lemma checkStreamIsEnabled_frame:
  "checkStreamIsEnabled rt args ca = (r, ca1) \<Longrightarrow>
   ca1 = ca\<lparr>entitlementCache := entitlementCache ca1, counters := counters ca1\<rparr>"
  by (auto simp add: checkStreamIsEnabled_def checkSpaceEnabled_def checkChannelEnabled_def
      executeUsingCache_def isSpaceEnabledUncached_def isChannelEnabledUncached_def Inc_def
      split: if_splits option.splits sum.splits prod.splits)

lemma getLinkedWallets_frame:
  "getLinkedWallets rt args ca = (r, ca1) \<Longrightarrow>
   ca1 = ca\<lparr>linkedWalletCache := linkedWalletCache ca1, counters := counters ca1\<rparr>"
  by (auto simp add: getLinkedWallets_def executeUsingCache_def getLinkedWalletsUncached_def
      bust_def Inc_def Let_def
      split: if_splits option.splits sum.splits prod.splits CacheResult.splits)


lemmas pipeline_defs =
  checkEntitlement_def checkStreamIsEnabled_def checkSpaceEnabled_def checkChannelEnabled_def
  isSpaceEnabledUncached_def isChannelEnabledUncached_def executeUsingCache_def
  getLinkedWallets_def getLinkedWalletsUncached_def bust_def Inc_def storeValue_def
  lookupFresh_def newArgsForEnabledSpace_def newArgsForEnabledChannel_def
  newArgsForLinkedWallets_def

lemmas demo_defs =
  demoChainAuth_def demoRuntime_def demoSpaceContract_def demoEvaluator_def demoCache_def
  demoArgs_def zeroChainAuthArgs_def



text \<open>
  C6. For a request of a kind other than IsWalletLinked that passed the enabled check and
  whose linked wallets were resolved to \<open>ws\<close>: the limit in force is the configured one; with
  more wallets than the limit checkEntitlement returns a RESOURCE_EXHAUSTED error and leaves
  the chainAuth value as the wallet resolution left it, so no membership probe and no
  entitlement evaluation ran; with exactly as many wallets as the limit it goes on to the
  membership probes. NewChainAuth sets the limit to 10 when the configured one is not
  positive and to the configured one otherwise.
\<close>

theorem C6_wallet_limit:
  "(kind args \<noteq> chainAuthKindIsWalletLinked
      \<and> checkStreamIsEnabled rt args ca = (Inr (True, why), ca1)
      \<and> getLinkedWallets rt args ca1 = (Inr ws, ca2) \<longrightarrow>
      linkedWalletsLimit ca2 = linkedWalletsLimit ca
      \<and> membershipCache ca2 = membershipCache ca
      \<and> entitlementManagerCache ca2 = entitlementManagerCache ca
      \<and> (int (length ws) > linkedWalletsLimit ca \<longrightarrow>
           checkEntitlement rt args ca
             = (Inl (RiverError Err_RESOURCE_EXHAUSTED
                       ''too many wallets linked to the root key''), ca2))
      \<and> (int (length ws) = linkedWalletsLimit ca \<longrightarrow>
           checkEntitlement rt args ca = checkEntitlementOfWallets rt args ws ca2))
   \<and> (\<exists>ca0. NewChainAuth bc ev (Inr sc) (Inr wl) (Inr c1) (Inr c2) (Inr c3) (Inr c4)
                limit timeoutMs = Inr ca0
             \<and> linkedWalletsLimit ca0 = (if limit \<le> 0 then 10 else limit))"
proof (intro conjI impI)
  assume h: "kind args \<noteq> chainAuthKindIsWalletLinked
      \<and> checkStreamIsEnabled rt args ca = (Inr (True, why), ca1)
      \<and> getLinkedWallets rt args ca1 = (Inr ws, ca2)"
  then have k: "kind args \<noteq> chainAuthKindIsWalletLinked"
    and e: "checkStreamIsEnabled rt args ca = (Inr (True, why), ca1)"
    and w: "getLinkedWallets rt args ca1 = (Inr ws, ca2)" by simp_all
  have f1: "ca1 = ca\<lparr>entitlementCache := entitlementCache ca1, counters := counters ca1\<rparr>"
    using e by (rule checkStreamIsEnabled_frame)
  have f2: "ca2 = ca1\<lparr>linkedWalletCache := linkedWalletCache ca2, counters := counters ca2\<rparr>"
    using w by (rule getLinkedWallets_frame)
  show lim: "linkedWalletsLimit ca2 = linkedWalletsLimit ca"
    by (subst f2, subst f1) simp
  show "membershipCache ca2 = membershipCache ca"
    by (subst f2, subst f1) simp
  show "entitlementManagerCache ca2 = entitlementManagerCache ca"
    by (subst f2, subst f1) simp
  show "checkEntitlement rt args ca
          = (Inl (RiverError Err_RESOURCE_EXHAUSTED
                    ''too many wallets linked to the root key''), ca2)"
    if "int (length ws) > linkedWalletsLimit ca"
    using that k e w lim by (simp add: checkEntitlement_def)
  show "checkEntitlement rt args ca = checkEntitlementOfWallets rt args ws ca2"
    if "int (length ws) = linkedWalletsLimit ca"
    using that k e w lim by (simp add: checkEntitlement_def)
next
  show "\<exists>ca0. NewChainAuth bc ev (Inr sc) (Inr wl) (Inr c1) (Inr c2) (Inr c3) (Inr c4)
                limit timeoutMs = Inr ca0
             \<and> linkedWalletsLimit ca0 = (if limit \<le> 0 then 10 else limit)"
    by (simp add: NewChainAuth_def DEFAULT_MAX_WALLETS_def)
qed

theorem C6_wallet_limit_witness:
  "fst (checkEntitlement demoRuntime ((demoArgs [])\<lparr>principal := demoAddr 5\<rparr>) demoChainAuth)
     = Inl (RiverError Err_RESOURCE_EXHAUSTED ''too many wallets linked to the root key'')
   \<and> membershipCache
        (snd (checkEntitlement demoRuntime ((demoArgs [])\<lparr>principal := demoAddr 5\<rparr>)
                demoChainAuth))
     = demoCache
   \<and> fst (checkEntitlement demoRuntime ((demoArgs [])\<lparr>principal := demoAddr 6\<rparr>) demoChainAuth)
     = Inr (boolCacheResult False EntitlementResultReason_MEMBERSHIP)"
proof -
  let ?R = demoRuntime and ?C = demoChainAuth
  let ?A = "(demoArgs [])\<lparr>principal := demoAddr 5\<rparr>"
  let ?C1 = "snd (checkStreamIsEnabled ?R ?A ?C)"
  let ?C2 = "snd (getLinkedWallets ?R ?A ?C1)"
  have k: "kind ?A \<noteq> chainAuthKindIsWalletLinked"
    by (simp add: demo_defs)
  have e: "checkStreamIsEnabled ?R ?A ?C
             = (Inr (True, EntitlementResultReason_SPACE_DISABLED), ?C1)"
    by (simp add: pipeline_defs demo_defs)
  have w: "getLinkedWallets ?R ?A ?C1 = (Inr (demoWallets 11), ?C2)"
    by (simp add: pipeline_defs demo_defs demoWallets_def)
  have n: "int (length (demoWallets 11)) > linkedWalletsLimit ?C"
    by (simp add: demoWallets_def demo_defs)
  have m: "membershipCache ?C = demoCache"
    by (simp add: demo_defs)
  have ten: "fst (checkEntitlement ?R ((demoArgs [])\<lparr>principal := demoAddr 6\<rparr>) ?C)
     = Inr (boolCacheResult False EntitlementResultReason_MEMBERSHIP)"
    by (simp add: pipeline_defs demo_defs demoAddr_eq_iff checkEntitlementOfWallets_def
        checkMembership_def checkMembershipUncached_def membershipDecision_def
        withLinkedWallets_def)
  show ?thesis
    using C6_wallet_limit [of ?A ?R ?C EntitlementResultReason_SPACE_DISABLED ?C1
        "demoWallets 11" ?C2] k e w n m ten
    by simp
qed

text \<open>
  C7. A request of kind IsWalletLinked passes the enabled check without any call or change.
  Once the linked wallets are resolved to \<open>ws\<close>, checkEntitlement returns (true, NONE) when the
  wallet address of the request is in \<open>ws\<close> and (false, WALLET_NOT_LINKED) when not, without
  error, and leaves the chainAuth value as the wallet resolution left it.
\<close>

theorem C7_wallet_linked:
  "kind args = chainAuthKindIsWalletLinked \<and> getLinkedWallets rt args ca = (Inr ws, ca1) \<longrightarrow>
     checkStreamIsEnabled rt args ca = (Inr (True, EntitlementResultReason_NONE), ca)
     \<and> checkEntitlement rt args ca
         = (Inr (if walletAddress args \<in> set ws
                 then boolCacheResult True EntitlementResultReason_NONE
                 else boolCacheResult False EntitlementResultReason_WALLET_NOT_LINKED), ca1)"
  by (simp add: checkEntitlement_def checkStreamIsEnabled_def anyWalletEquals_iff)

theorem C7_wallet_linked_witness:
  "fst (checkEntitlement demoRuntime (demoLinkedArgs (demoAddr 2)) demoChainAuth)
     = Inr (boolCacheResult True EntitlementResultReason_NONE)
   \<and> fst (checkEntitlement demoRuntime (demoLinkedArgs (demoAddr 3)) demoChainAuth)
     = Inr (boolCacheResult False EntitlementResultReason_WALLET_NOT_LINKED)"
proof -
  let ?R = demoRuntime and ?C = demoChainAuth
  have k: "kind (demoLinkedArgs w) = chainAuthKindIsWalletLinked" for w
    by (simp add: demoLinkedArgs_def)
  have w: "getLinkedWallets ?R (demoLinkedArgs w) ?C
             = (Inr [demoAddr 1, demoAddr 2], snd (getLinkedWallets ?R (demoLinkedArgs w) ?C))"
    for w
    by (simp add: pipeline_defs demo_defs demoLinkedArgs_def demoAddr_eq_iff)
  have a: "walletAddress (demoLinkedArgs w) = w" for w
    by (simp add: demoLinkedArgs_def)
  show ?thesis
    using C7_wallet_linked [of "demoLinkedArgs (demoAddr 2)" ?R ?C "[demoAddr 1, demoAddr 2]"
        "snd (getLinkedWallets ?R (demoLinkedArgs (demoAddr 2)) ?C)"]
      C7_wallet_linked [of "demoLinkedArgs (demoAddr 3)" ?R ?C "[demoAddr 1, demoAddr 2]"
        "snd (getLinkedWallets ?R (demoLinkedArgs (demoAddr 3)) ?C)"]
      k w
    by (simp add: a demoAddr_eq_iff)
qed



lemma checkMembership_sound:
  assumes "membershipCacheFilled ca" and "channelsSound chans"
    and "checkMembership rt addr sid chans ca = (chans1, ca1)"
  shows "membershipCacheFilled ca1 \<and> channelsSound chans1"
proof -
  let ?key = "zeroChainAuthArgs\<lparr>kind := chainAuthKindIsSpaceMember, spaceId := sid,
                                  principal := addr\<rparr>"
  show ?thesis
  proof (cases "lookupFresh (now rt) (membershipCache ca) ?key")
    case (Some v)
    then obtain cv where cv: "entries (membershipCache ca) ?key = Some cv" and v: "v = result cv"
      by (auto simp add: lookupFresh_def split: option.splits if_splits)
    then obtain s where s: "v = membershipStatusCacheResult (Some s)"
      using assms(1) by (auto simp add: membershipCacheFilled_def)
    show ?thesis
      using assms Some s
      by (auto simp add: checkMembership_def executeUsingCache_def Inc_def
          membershipCacheFilled_def channelsSound_def)
  next
    case None
    show ?thesis
    proof (cases "GetMembershipStatus (spaceContract ca) sid addr")
      case (Inl err)
      then show ?thesis
        using assms None
        by (auto simp add: checkMembership_def executeUsingCache_def checkMembershipUncached_def
            membershipCacheFilled_def channelsSound_def)
    next
      case (Inr st)
      then show ?thesis
        using assms None
        by (auto simp add: checkMembership_def executeUsingCache_def checkMembershipUncached_def
            Inc_def storeValue_def membershipCacheFilled_def channelsSound_def
            split: if_splits)
    qed
  qed
qed

lemma no_None_map_Some: "None \<notin> set xs \<Longrightarrow> xs = map Some (map the xs)"
  by (induction xs) auto

lemma runProbes_sound:
  "membershipCacheFilled ca \<Longrightarrow> channelsSound chans \<Longrightarrow>
   runProbes rt sid ws chans ca = (chans1, ca1) \<Longrightarrow>
   membershipCacheFilled ca1 \<and> channelsSound chans1"
proof (induction ws arbitrary: chans ca)
  case Nil
  then show ?case by simp
next
  case (Cons addr rest)
  obtain chans2 ca2 where step: "checkMembership rt addr sid chans ca = (chans2, ca2)"
    by (cases "checkMembership rt addr sid chans ca") auto
  have mid: "membershipCacheFilled ca2 \<and> channelsSound chans2"
    using checkMembership_sound [OF Cons.prems(1,2) step] .
  from Cons.prems(3) step have "runProbes rt sid rest chans2 ca2 = (chans1, ca1)" by simp
  with mid show ?case using Cons.IH by blast
qed

text \<open>
  Started on a membership cache that holds what the probes store, the probes leave channels
  of the shape the outcome theorem asks for: no crash, every status non-nil.
\<close>

lemma runProbes_channels:
  assumes "membershipCacheFilled ca"
    and "runProbes rt sid ws \<lparr>isMemberResults = [], isMemberError = [], crashed = False\<rparr> ca
           = (chans, ca1)"
  shows "\<exists>rs. chans = \<lparr>isMemberResults = map Some rs, isMemberError = isMemberError chans,
                        crashed = False\<rparr>"
proof -
  have "channelsSound \<lparr>isMemberResults = [], isMemberError = [], crashed = False\<rparr>"
    by (simp add: channelsSound_def)
  then have snd: "channelsSound chans"
    using runProbes_sound [OF assms(1) _ assms(2)] by simp
  then have "None \<notin> set (isMemberResults chans)"
    by (simp add: channelsSound_def)
  then have "isMemberResults chans = map Some (map the (isMemberResults chans))"
    by (rule no_None_map_Some)
  then obtain rs where "isMemberResults chans = map Some rs" by blast
  with snd show ?thesis
    by (intro exI [of _ rs]) (simp add: channelsSound_def)
qed





end
